theory Spec2Isabelle
  imports Complex_Main "HOL-Library.Log_Nat" "HOL-Library.AList"
begin

section \<open>Python numbers\<close>

text \<open>
  \<^verbatim>\<open>automation_script.py\<close> compares and prints Python numbers: integers (a row count,
  thresholds read from JSON) and floats (amounts read from SQLite, the age of the data in
  hours). A Python \<open>int\<close> is an \<^typ>\<open>int\<close>. A finite Python \<open>float\<close> is an IEEE double, that
  is a rational number; it is modelled by that rational, and \<open>fl\<close> rounds the exact result
  of an arithmetic operation to the nearest double (ties to even), as the hardware does.
  Infinities, NaN and the sign of zero are not modelled; overflow to an infinity cannot occur
  in the operations the script performs.
\<close>

definition pow2 :: "int \<Rightarrow> rat" where
  "pow2 k = (if 0 \<le> k then 2 ^ nat k else 1 / 2 ^ nat (- k))"

definition pow10 :: "int \<Rightarrow> rat" where
  "pow10 k = (if 0 \<le> k then 10 ^ nat k else 1 / 10 ^ nat (- k))"

text \<open>Rounding to the nearest integer, ties to the even one.\<close>

definition rhe :: "rat \<Rightarrow> int" where
  "rhe x = (let f = \<lfloor>x\<rfloor>; r = x - of_int f
            in if r < 1 / 2 then f else if 1 / 2 < r then f + 1
               else if even f then f else f + 1)"

text \<open>The binary exponent of a positive rational: \<open>2 ^ ilog2 a \<le> a < 2 ^ (ilog2 a + 1)\<close>.\<close>

definition ilog2 :: "rat \<Rightarrow> int" where
  "ilog2 a = (let e0 = bitlen (fst (quotient_of a)) - bitlen (snd (quotient_of a))
              in if pow2 e0 \<le> a then e0 else e0 - 1)"

definition round_to :: "rat \<Rightarrow> rat \<Rightarrow> rat" where
  "round_to u x = of_int (rhe (x / u)) * u"

text \<open>
  Rounding to a double: 53 significant bits, the exponent bounded below by the subnormal
  range.
\<close>

definition fl :: "rat \<Rightarrow> rat" where
  "fl x = (if x = 0 then 0
           else sgn x * round_to (pow2 (max (ilog2 \<bar>x\<bar>) (- 1022) - 52)) \<bar>x\<bar>)"

definition is_double :: "rat \<Rightarrow> bool" where
  "is_double x \<longleftrightarrow> (\<exists>m k. x = of_int m * pow2 k \<and> \<bar>m\<bar> < 2 ^ 53 \<and> - 1074 \<le> k)"

subsection \<open>Printing numbers\<close>

function dec_nat :: "int \<Rightarrow> string" where
  "dec_nat n = (if n < 10 then [''0123456789'' ! nat n]
                else dec_nat (n div 10) @ [''0123456789'' ! nat (n mod 10)])"
  by pat_completeness auto
termination
  by (relation "measure nat") auto

declare dec_nat.simps [simp del]

text \<open>\<open>str(i)\<close> for an \<open>int\<close>.\<close>

definition str_int :: "int \<Rightarrow> string" where
  "str_int i = (if i < 0 then CHR ''-'' # dec_nat (- i) else dec_nat i)"

definition pad_left :: "nat \<Rightarrow> string \<Rightarrow> string" where
  "pad_left n s = replicate (n - length s) CHR ''0'' @ s"

fun group3 :: "string \<Rightarrow> string" where
  "group3 ds = (if length ds \<le> 3 then ds
                else group3 (take (length ds - 3) ds) @ '','' @ drop (length ds - 3) ds)"

declare group3.simps [simp del]

text \<open>
  \<open>format(x, '.df')\<close> and \<open>format(x, ',.df')\<close> for a float \<open>x\<close>: the exact value of the
  double, correctly rounded to \<open>d\<close> decimals, with thousands separators when asked.
\<close>

definition format_fixed :: "bool \<Rightarrow> nat \<Rightarrow> rat \<Rightarrow> string" where
  "format_fixed commas d x =
     (let m = rhe (\<bar>x\<bar> * 10 ^ d);
          ip = dec_nat (m div 10 ^ d);
          fp = pad_left d (dec_nat (m mod 10 ^ d))
      in (if x < 0 then ''-'' else []) @ (if commas then group3 ip else ip)
         @ (if d = 0 then [] else CHR ''.'' # fp))"

text \<open>
  \<open>repr(x)\<close> for a float: the shortest decimal string that rounds back to \<open>x\<close>, the
  closest to \<open>x\<close> among these, in scientific notation when the decimal point would lie
  more than 16 digits to the right or more than 4 to the left.
\<close>

definition ilog10 :: "rat \<Rightarrow> int" where
  "ilog10 a = (let e = (ilog2 a * 30103) div 100000
               in if a < pow10 e then e - 1 else if pow10 (e + 1) \<le> a then e + 1 else e)"

definition float_digits :: "rat \<Rightarrow> nat \<Rightarrow> (int \<times> int) option" where
  "float_digits a p =
     (let s = ilog10 a - int p + 1; lo = \<lfloor>a / pow10 s\<rfloor>; hi = lo + 1;
          ok_lo = (fl (of_int lo * pow10 s) = a); ok_hi = (fl (of_int hi * pow10 s) = a);
          d_lo = a - of_int lo * pow10 s; d_hi = of_int hi * pow10 s - a
      in if ok_lo \<and> ok_hi
         then (if d_lo < d_hi \<or> (d_lo = d_hi \<and> even lo) then Some (lo, s) else Some (hi, s))
         else if ok_lo then Some (lo, s) else if ok_hi then Some (hi, s) else None)"

fun shortest_digits :: "rat \<Rightarrow> nat \<Rightarrow> nat \<Rightarrow> int \<times> int" where
  "shortest_digits a p 0 = (rhe (a / pow10 (ilog10 a - int p + 1)), ilog10 a - int p + 1)"
| "shortest_digits a p (Suc n) =
     (case float_digits a p of Some r \<Rightarrow> r | None \<Rightarrow> shortest_digits a (Suc p) n)"

definition strip_zeros :: "string \<Rightarrow> string" where
  "strip_zeros ds = rev (dropWhile (\<lambda>c. c = CHR ''0'') (rev ds))"

definition float_repr_pos :: "rat \<Rightarrow> string" where
  "float_repr_pos a =
     (let (m, s) = shortest_digits a 1 16;
          full = dec_nat m; ds = strip_zeros full;
          decpt = int (length full) + s
      in if decpt \<le> - 4 \<or> 16 < decpt
         then hd ds # (if 1 < length ds then CHR ''.'' # tl ds else [])
              @ ''e'' @ (if decpt - 1 < 0 then ''-'' else ''+'')
              @ pad_left 2 (dec_nat \<bar>decpt - 1\<bar>)
         else if decpt \<le> 0 then ''0.'' @ replicate (nat (- decpt)) CHR ''0'' @ ds
         else if int (length ds) \<le> decpt
         then ds @ replicate (nat decpt - length ds) CHR ''0'' @ ''.0''
         else take (nat decpt) ds @ ''.'' @ drop (nat decpt) ds)"

definition float_repr :: "rat \<Rightarrow> string" where
  "float_repr x = (if x = 0 then ''0.0'' else if x < 0 then CHR ''-'' # float_repr_pos (- x)
                   else float_repr_pos x)"

section \<open>Python values\<close>

text \<open>
  The values \<open>json.load\<close> produces, which are also the values a cell of a query result
  holds (\<open>NULL\<close> is \<open>None\<close>). A dictionary keeps its entries in insertion order. Strings
  are taken to be ASCII.
\<close>

datatype pyval =
    PNone
  | PBool bool
  | PInt int
  | PFloat rat
  | PStr string
  | PList "pyval list"
  | PDict "(pyval \<times> pyval) list"

type_synonym pydict = "(pyval \<times> pyval) list"

text \<open>
  Exceptions. \<open>External cls msg\<close> is an exception raised outside the script's own
  expressions (by the operating system, the JSON parser, the database driver or pandas):
  \<open>cls\<close> names its class, a subclass of \<open>Exception\<close>, and \<open>msg\<close> is its \<open>str()\<close>.
\<close>

datatype exn =
    KeyError pyval
  | TypeError string
  | ValueError string
  | OverflowError string
  | External string string

fun type_name :: "pyval \<Rightarrow> string" where
  "type_name PNone = ''NoneType''"
| "type_name (PBool _) = ''bool''"
| "type_name (PInt _) = ''int''"
| "type_name (PFloat _) = ''float''"
| "type_name (PStr _) = ''str''"
| "type_name (PList _) = ''list''"
| "type_name (PDict _) = ''dict''"

text \<open>Truth value testing (\<open>if x:\<close>, \<open>x or y\<close>).\<close>

fun py_bool :: "pyval \<Rightarrow> bool" where
  "py_bool PNone = False"
| "py_bool (PBool b) = b"
| "py_bool (PInt i) = (i \<noteq> 0)"
| "py_bool (PFloat q) = (q \<noteq> 0)"
| "py_bool (PStr s) = (s \<noteq> [])"
| "py_bool (PList xs) = (xs \<noteq> [])"
| "py_bool (PDict kvs) = (kvs \<noteq> [])"

text \<open>The numeric value of a number; \<open>bool\<close> is a subclass of \<open>int\<close>.\<close>

fun py_num :: "pyval \<Rightarrow> rat option" where
  "py_num (PBool b) = Some (if b then 1 else 0)"
| "py_num (PInt i) = Some (of_int i)"
| "py_num (PFloat q) = Some q"
| "py_num _ = None"

fun str_less :: "string \<Rightarrow> string \<Rightarrow> bool" where
  "str_less [] [] = False"
| "str_less [] (d # t) = True"
| "str_less (c # s) [] = False"
| "str_less (c # s) (d # t) =
     (if (of_char c :: nat) < of_char d then True
      else if (of_char d :: nat) < of_char c then False
      else str_less s t)"

text \<open>
  \<open>a < b\<close> and \<open>a > b\<close> where the left operand is a number or a string, as it is wherever
  the script compares: numbers compare by exact value across \<open>int\<close> and \<open>float\<close>, strings
  lexicographically, and any other pairing raises \<open>TypeError\<close>.
\<close>

definition not_supported :: "string \<Rightarrow> pyval \<Rightarrow> pyval \<Rightarrow> exn" where
  "not_supported opr a b =
     TypeError ([CHR 0x27] @ opr @ [CHR 0x27] @ '' not supported between instances of ''
                @ [CHR 0x27] @ type_name a @ [CHR 0x27] @ '' and ''
                @ [CHR 0x27] @ type_name b @ [CHR 0x27])"

definition py_lt :: "pyval \<Rightarrow> pyval \<Rightarrow> exn + bool" where
  "py_lt a b =
     (case (py_num a, py_num b) of
        (Some x, Some y) \<Rightarrow> Inr (x < y)
      | _ \<Rightarrow> (case (a, b) of
                (PStr s, PStr t) \<Rightarrow> Inr (str_less s t)
              | _ \<Rightarrow> Inl (not_supported ''<'' a b)))"

definition py_gt :: "pyval \<Rightarrow> pyval \<Rightarrow> exn + bool" where
  "py_gt a b =
     (case (py_num a, py_num b) of
        (Some x, Some y) \<Rightarrow> Inr (y < x)
      | _ \<Rightarrow> (case (a, b) of
                (PStr s, PStr t) \<Rightarrow> Inr (str_less t s)
              | _ \<Rightarrow> Inl (not_supported ''>'' a b)))"

subsection \<open>\<open>repr\<close>, \<open>str\<close> and \<open>format\<close>\<close>

definition hex2 :: "nat \<Rightarrow> string" where
  "hex2 n = [''0123456789abcdef'' ! (n div 16), ''0123456789abcdef'' ! (n mod 16)]"

definition escape_char :: "char \<Rightarrow> char \<Rightarrow> string" where
  "escape_char q c =
     (if c = CHR 0x5C then [CHR 0x5C, CHR 0x5C]
      else if c = q then [CHR 0x5C, c]
      else if c = CHR 0x0A then [CHR 0x5C, CHR ''n'']
      else if c = CHR 0x0D then [CHR 0x5C, CHR ''r'']
      else if c = CHR 0x09 then [CHR 0x5C, CHR ''t'']
      else if (of_char c :: nat) < 32 \<or> (of_char c :: nat) = 127
      then [CHR 0x5C, CHR ''x''] @ hex2 (of_char c)
      else [c])"

definition str_repr :: "string \<Rightarrow> string" where
  "str_repr s =
     (let q = (if CHR 0x27 \<in> set s \<and> CHR 0x22 \<notin> set s then CHR 0x22 else CHR 0x27)
      in [q] @ concat (map (escape_char q) s) @ [q])"

fun join :: "string \<Rightarrow> string list \<Rightarrow> string" where
  "join sep [] = []"
| "join sep [x] = x"
| "join sep (x # y # ys) = x @ sep @ join sep (y # ys)"

fun py_repr :: "pyval \<Rightarrow> string" where
  "py_repr PNone = ''None''"
| "py_repr (PBool b) = (if b then ''True'' else ''False'')"
| "py_repr (PInt i) = str_int i"
| "py_repr (PFloat q) = float_repr q"
| "py_repr (PStr s) = str_repr s"
| "py_repr (PList xs) = ''['' @ join '', '' (map py_repr xs) @ '']''"
| "py_repr (PDict kvs) =
     ''{'' @ join '', '' (map (\<lambda>kv. py_repr (fst kv) @ '': '' @ py_repr (snd kv)) kvs) @ ''}''"

text \<open>\<open>str(v)\<close>, which is also what a replacement field without a format spec prints.\<close>

definition py_str :: "pyval \<Rightarrow> string" where
  "py_str v = (case v of PStr s \<Rightarrow> s | _ \<Rightarrow> py_repr v)"

text \<open>
  \<open>format(v, '.df')\<close> and \<open>format(v, ',.df')\<close>: an \<open>int\<close> is converted to a float first,
  which overflows beyond the range of doubles; other types reject the format code.
\<close>

definition py_format_f :: "bool \<Rightarrow> nat \<Rightarrow> pyval \<Rightarrow> exn + string" where
  "py_format_f commas d v =
     (case v of
        PFloat q \<Rightarrow> Inr (format_fixed commas d q)
      | PInt i \<Rightarrow>
          if pow2 1024 \<le> \<bar>fl (of_int i)\<bar>
          then Inl (OverflowError ''int too large to convert to float'')
          else Inr (format_fixed commas d (fl (of_int i)))
      | PBool b \<Rightarrow> Inr (format_fixed commas d (if b then 1 else 0))
      | PStr s \<Rightarrow>
          Inl (ValueError (''Unknown format code '' @ [CHR 0x27] @ ''f'' @ [CHR 0x27]
                           @ '' for object of type '' @ [CHR 0x27] @ ''str'' @ [CHR 0x27]))
      | _ \<Rightarrow>
          Inl (TypeError (''unsupported format string passed to '' @ type_name v
                          @ ''.__format__'')))"

text \<open>\<open>str(e)\<close> for an exception; a \<open>KeyError\<close> prints the \<open>repr\<close> of the missing key.\<close>

fun exn_str :: "exn \<Rightarrow> string" where
  "exn_str (KeyError k) = py_repr k"
| "exn_str (TypeError m) = m"
| "exn_str (ValueError m) = m"
| "exn_str (OverflowError m) = m"
| "exn_str (External cls m) = m"

subsection \<open>Dictionaries\<close>

text \<open>
  Keys that are equal in Python (\<open>1 == 1.0 == True\<close>) are one key; \<open>key_norm\<close> picks a
  representative. Lists and dictionaries are not hashable.
\<close>

fun key_norm :: "pyval \<Rightarrow> pyval" where
  "key_norm (PBool b) = PInt (if b then 1 else 0)"
| "key_norm (PFloat q) = (if of_int \<lfloor>q\<rfloor> = q then PInt \<lfloor>q\<rfloor> else PFloat q)"
| "key_norm v = v"

fun hashable :: "pyval \<Rightarrow> bool" where
  "hashable (PList _) = False"
| "hashable (PDict _) = False"
| "hashable _ = True"

fun dict_get :: "pydict \<Rightarrow> pyval \<Rightarrow> pyval option" where
  "dict_get [] k = None"
| "dict_get ((k', v) # d) k = (if key_norm k' = key_norm k then Some v else dict_get d k)"

text \<open>\<open>d[k] = v\<close>: an existing key keeps its place, a new one goes last.\<close>

fun dict_set :: "pydict \<Rightarrow> pyval \<Rightarrow> pyval \<Rightarrow> pydict" where
  "dict_set [] k v = [(k, v)]"
| "dict_set ((k', v') # d) k v =
     (if key_norm k' = key_norm k then (k', v) # d else (k', v') # dict_set d k v)"

text \<open>\<open>obj[key]\<close> for a string literal \<open>key\<close>.\<close>

definition getitem :: "pyval \<Rightarrow> string \<Rightarrow> exn + pyval" where
  "getitem obj key =
     (case obj of
        PDict d \<Rightarrow> (case dict_get d (PStr key) of
                      None \<Rightarrow> Inl (KeyError (PStr key))
                    | Some v \<Rightarrow> Inr v)
      | PList xs \<Rightarrow> Inl (TypeError ''list indices must be integers or slices, not str'')
      | PStr s \<Rightarrow> Inl (TypeError (''string indices must be integers, not ''
                                   @ [CHR 0x27] @ ''str'' @ [CHR 0x27]))
      | _ \<Rightarrow> Inl (TypeError ([CHR 0x27] @ type_name obj @ [CHR 0x27]
                             @ '' object is not subscriptable'')))"

text \<open>
  \<open>d.update(other)\<close>. A dictionary is merged key by key. Anything else is iterated as a
  sequence of key/value pairs: each element must itself be a sequence of length two. The
  update stops at the first offending element and keeps what it has already stored.
\<close>

fun seq_of :: "pyval \<Rightarrow> pyval list option" where
  "seq_of (PList xs) = Some xs"
| "seq_of (PStr s) = Some (map (\<lambda>c. PStr [c]) s)"
| "seq_of (PDict kvs) = Some (map fst kvs)"
| "seq_of _ = None"

fun merge_from_seq :: "pydict \<Rightarrow> pyval list \<Rightarrow> nat \<Rightarrow> pydict \<times> exn option" where
  "merge_from_seq d [] i = (d, None)"
| "merge_from_seq d (item # rest) i =
     (case seq_of item of
        None \<Rightarrow> (d, Some (TypeError (''cannot convert dictionary update sequence element #''
                                      @ str_int (int i) @ '' to a sequence'')))
      | Some [k, v] \<Rightarrow>
          if hashable k then merge_from_seq (dict_set d k v) rest (Suc i)
          else (d, Some (TypeError (''unhashable type: '' @ [CHR 0x27] @ type_name k
                                    @ [CHR 0x27])))
      | Some elems \<Rightarrow>
          (d, Some (ValueError (''dictionary update sequence element #'' @ str_int (int i)
                                @ '' has length '' @ str_int (int (length elems))
                                @ ''; 2 is required''))))"

definition dict_update :: "pydict \<Rightarrow> pyval \<Rightarrow> pydict \<times> exn option" where
  "dict_update d other =
     (case other of
        PDict kvs \<Rightarrow> (foldl (\<lambda>acc kv. dict_set acc (fst kv) (snd kv)) d kvs, None)
      | PList items \<Rightarrow> merge_from_seq d items 0
      | PStr s \<Rightarrow> merge_from_seq d (map (\<lambda>c. PStr [c]) s) 0
      | _ \<Rightarrow> (d, Some (TypeError ([CHR 0x27] @ type_name other @ [CHR 0x27]
                                   @ '' object is not iterable''))))"

section \<open>\<open>SalesAutomationManager.load_config\<close>\<close>

definition default_config :: pydict where
  "default_config =
     [(PStr ''database_path'', PStr ''sales_data.db''),
      (PStr ''backup_path'', PStr ''backups/''),
      (PStr ''log_path'', PStr ''logs/''),
      (PStr ''email_alerts'', PDict
         [(PStr ''enabled'', PBool False),
          (PStr ''smtp_server'', PStr ''smtp.gmail.com''),
          (PStr ''smtp_port'', PInt 587),
          (PStr ''sender_email'', PStr []),
          (PStr ''sender_password'', PStr []),
          (PStr ''recipients'', PList [])]),
      (PStr ''data_sources'', PDict
         [(PStr ''crm_api_url'', PStr []),
          (PStr ''erp_api_url'', PStr []),
          (PStr ''pos_api_url'', PStr [])]),
      (PStr ''quality_thresholds'', PDict
         [(PStr ''min_daily_transactions'', PInt 100),
          (PStr ''max_transaction_amount'', PInt 10000),
          (PStr ''data_freshness_hours'', PInt 24)]),
      (PStr ''schedule'', PDict
         [(PStr ''etl_frequency'', PStr ''hourly''),
          (PStr ''backup_frequency'', PStr ''daily''),
          (PStr ''report_frequency'', PStr ''weekly'')])]"

text \<open>
  What \<open>load_config\<close> finds at \<open>config_file\<close>. \<open>Absent w\<close>: \<open>os.path.exists\<close> is false,
  and \<open>w\<close> is the exception, if any, that opening the file for writing or dumping the
  defaults into it raises. \<open>Present r\<close>: the path exists, and \<open>r\<close> is what opening it and
  \<open>json.load\<close> give, an exception or the parsed value.
\<close>

datatype config_file = Absent "exn option" | Present "exn + pyval"

text \<open>
  The result: the dictionary returned, the value dumped into a newly created file (if
  one was created), and the lines printed.
\<close>

record loaded =
  config :: pydict
  written :: "pyval option"
  printed :: "string list"

definition error_loading :: "exn \<Rightarrow> string" where
  "error_loading e = ''Error loading config: '' @ exn_str e @ ''. Using defaults.''"

definition load_config :: "config_file \<Rightarrow> loaded" where
  "load_config config_file =
     (case config_file of
        Present (Inr user_config) \<Rightarrow>
          (case dict_update default_config user_config of
             (cfg, None) \<Rightarrow> \<lparr>config = cfg, written = None, printed = []\<rparr>
           | (cfg, Some e) \<Rightarrow> \<lparr>config = cfg, written = None, printed = [error_loading e]\<rparr>)
      | Present (Inl e) \<Rightarrow>
          \<lparr>config = default_config, written = None, printed = [error_loading e]\<rparr>
      | Absent None \<Rightarrow>
          \<lparr>config = default_config, written = Some (PDict default_config), printed = []\<rparr>
      | Absent (Some e) \<Rightarrow>
          \<lparr>config = default_config, written = None, printed = [error_loading e]\<rparr>)"

text \<open>\<open>obj[k1][k2]\<close>, as in \<open>self.config['quality_thresholds']['min_daily_transactions']\<close>.\<close>

definition getitem2 :: "pyval \<Rightarrow> string \<Rightarrow> string \<Rightarrow> exn + pyval" where
  "getitem2 obj k1 k2 = (case getitem obj k1 of Inl e \<Rightarrow> Inl e | Inr v \<Rightarrow> getitem v k2)"

text \<open>A parsed JSON object has no two equal keys.\<close>

definition distinct_keys :: "pydict \<Rightarrow> bool" where
  "distinct_keys kvs = distinct (map (\<lambda>kv. key_norm (fst kv)) kvs)"

text \<open>The entries of a user configuration whose key is one of the default options.\<close>

definition known_keys_only :: "pydict \<Rightarrow> pydict" where
  "known_keys_only kvs = filter (\<lambda>kv. dict_get default_config (fst kv) \<noteq> None) kvs"

text \<open>Two configuration files used as examples below.\<close>

definition partial_thresholds :: pydict where
  "partial_thresholds = [(PStr ''min_daily_transactions'', PInt 50)]"

definition partial_user_config :: pydict where
  "partial_user_config =
     [(PStr ''database_path'', PStr ''prod.db''),
      (PStr ''quality_thresholds'', PDict partial_thresholds)]"

definition extra_user_config :: pydict where
  "extra_user_config =
     [(PStr ''theme'', PStr ''dark''),
      (PStr ''database_path'', PStr ''prod.db'')]"

section \<open>Dates and times\<close>

text \<open>
  A naive \<open>datetime\<close> object, as \<open>datetime.now()\<close> and \<open>datetime.strptime\<close> return it,
  with the proleptic Gregorian ordinal of its date as the \<open>datetime\<close> module computes it.
\<close>

record datetime =
  year :: int
  month :: int
  day :: int
  hour :: int
  minute :: int
  second :: int
  microsecond :: int

definition is_leap :: "int \<Rightarrow> bool" where
  "is_leap y \<longleftrightarrow> y mod 4 = 0 \<and> (y mod 100 \<noteq> 0 \<or> y mod 400 = 0)"

definition days_before_year :: "int \<Rightarrow> int" where
  "days_before_year y = (y - 1) * 365 + (y - 1) div 4 - (y - 1) div 100 + (y - 1) div 400"

definition days_in_month :: "int \<Rightarrow> int \<Rightarrow> int" where
  "days_in_month y m =
     (if m = 2 then (if is_leap y then 29 else 28)
      else if m = 4 \<or> m = 6 \<or> m = 9 \<or> m = 11 then 30 else 31)"

definition days_before_month :: "int \<Rightarrow> int \<Rightarrow> int" where
  "days_before_month y m =
     [0, 31, 59, 90, 120, 151, 181, 212, 243, 273, 304, 334] ! nat (m - 1)
     + (if 2 < m \<and> is_leap y then 1 else 0)"

definition ymd2ord :: "int \<Rightarrow> int \<Rightarrow> int \<Rightarrow> int" where
  "ymd2ord y m d = days_before_year y + days_before_month y m + d"

text \<open>Microseconds since midnight of 1 January of year 1.\<close>

definition to_micro :: "datetime \<Rightarrow> int" where
  "to_micro t =
     (((ymd2ord (year t) (month t) (day t) - 1) * 86400
       + hour t * 3600 + minute t * 60 + second t) * 1000000) + microsecond t"

text \<open>\<open>t.strftime('%Y-%m-%d')\<close>, the year printed with four digits.\<close>

definition strftime_ymd :: "datetime \<Rightarrow> string" where
  "strftime_ymd t =
     pad_left 4 (dec_nat (year t)) @ ''-'' @ pad_left 2 (dec_nat (month t))
     @ ''-'' @ pad_left 2 (dec_nat (day t))"

text \<open>
  \<open>(a - b).total_seconds() / 3600\<close> for two datetimes whose difference is \<open>us\<close>
  microseconds: \<open>total_seconds\<close> divides the integer count of microseconds by \<open>10**6\<close>,
  and the quotient is divided by \<open>3600\<close>; each division rounds to a double.
\<close>

definition total_seconds :: "int \<Rightarrow> rat" where
  "total_seconds us = fl (of_int us / 1000000)"

definition hours_of :: "int \<Rightarrow> rat" where
  "hours_of us = fl (total_seconds us / 3600)"

subsection \<open>\<open>datetime.strptime(s, '%Y-%m-%d')\<close>\<close>

text \<open>
  \<open>strptime\<close> matches a prefix of \<open>s\<close> against the regular expression of the format:
  four digits, a dash, a month \<open>1[0-2]|0[1-9]|[1-9]\<close>, a dash, and a day
  \<open>3[01]|[12]\d|0[1-9]|[1-9]| [1-9]\<close>, the alternatives tried in this order. It raises
  \<open>ValueError\<close> when there is no match, when text remains after the match, and when the
  three numbers are not a date.
\<close>

definition is_digit :: "char \<Rightarrow> bool" where
  "is_digit c \<longleftrightarrow> c \<in> set ''0123456789''"

definition digit_val :: "char \<Rightarrow> int" where
  "digit_val c = int (of_char c) - 48"

fun match_year :: "string \<Rightarrow> (int \<times> string) option" where
  "match_year (a # b # c # d # r) =
     (if is_digit a \<and> is_digit b \<and> is_digit c \<and> is_digit d
      then Some (1000 * digit_val a + 100 * digit_val b + 10 * digit_val c + digit_val d, r)
      else None)"
| "match_year _ = None"

fun match_dash :: "string \<Rightarrow> string option" where
  "match_dash (c # r) = (if c = CHR ''-'' then Some r else None)"
| "match_dash [] = None"

text \<open>The month and the dash after it.\<close>

fun match_month1 :: "string \<Rightarrow> (int \<times> string) option" where
  "match_month1 (a # b # r) =
     (if a \<in> set ''123456789'' \<and> b = CHR ''-'' then Some (digit_val a, r) else None)"
| "match_month1 _ = None"

fun match_month :: "string \<Rightarrow> (int \<times> string) option" where
  "match_month (a # b # c # r) =
     (if c = CHR ''-'' \<and> ((a = CHR ''1'' \<and> b \<in> set ''012'')
                          \<or> (a = CHR ''0'' \<and> b \<in> set ''123456789''))
      then Some (10 * digit_val a + digit_val b, r)
      else match_month1 (a # b # c # r))"
| "match_month s = match_month1 s"

fun match_day :: "string \<Rightarrow> (int \<times> string) option" where
  "match_day (a # b # r) =
     (if a = CHR ''3'' \<and> b \<in> set ''01'' then Some (30 + digit_val b, r)
      else if a \<in> set ''12'' \<and> is_digit b then Some (10 * digit_val a + digit_val b, r)
      else if a = CHR ''0'' \<and> b \<in> set ''123456789'' then Some (digit_val b, r)
      else if a \<in> set ''123456789'' then Some (digit_val a, b # r)
      else if a = CHR '' '' \<and> b \<in> set ''123456789'' then Some (digit_val b, r)
      else None)"
| "match_day [a] = (if a \<in> set ''123456789'' then Some (digit_val a, []) else None)"
| "match_day [] = None"

definition match_ymd :: "string \<Rightarrow> ((int \<times> int \<times> int) \<times> string) option" where
  "match_ymd s =
     (case match_year s of None \<Rightarrow> None | Some (y, r1) \<Rightarrow>
      case match_dash r1 of None \<Rightarrow> None | Some r2 \<Rightarrow>
      case match_month r2 of None \<Rightarrow> None | Some (m, r3) \<Rightarrow>
      case match_day r3 of None \<Rightarrow> None | Some (d, r4) \<Rightarrow> Some ((y, m, d), r4))"

definition strptime_ymd :: "pyval \<Rightarrow> exn + datetime" where
  "strptime_ymd v =
     (case v of
        PStr s \<Rightarrow>
          (case match_ymd s of
             None \<Rightarrow> Inl (ValueError (''time data '' @ str_repr s @ '' does not match format ''
                                      @ [CHR 0x27] @ ''%Y-%m-%d'' @ [CHR 0x27]))
           | Some ((y, m, d), rest) \<Rightarrow>
               if rest \<noteq> [] then Inl (ValueError (''unconverted data remains: '' @ rest))
               else if y < 1 then Inl (ValueError (''year '' @ str_int y @ '' is out of range''))
               else if days_in_month y m < d
               then Inl (ValueError ''day is out of range for month'')
               else Inr \<lparr>year = y, month = m, day = d, hour = 0, minute = 0, second = 0,
                         microsecond = 0\<rparr>)
      | _ \<Rightarrow> Inl (TypeError (''strptime() argument 1 must be str, not '' @ type_name v)))"

section \<open>\<open>SalesAutomationManager.validate_data_quality\<close>\<close>

text \<open>
  The database, as the method sees it: whether \<open>sqlite3.connect\<close> on the configured path
  succeeds, what each of the three \<open>pd.read_sql\<close> queries answers (an exception, or the
  single cell of the single row; the first two queries take the current day as a
  parameter), and whether leaving the \<open>with\<close> block, which commits after a normal exit and
  rolls back after an exception, succeeds. \<open>COUNT(*)\<close> is always an integer; the other two
  cells hold whatever SQLite's \<open>MAX\<close> returns, \<open>None\<close> for \<open>NULL\<close>.

  A numeric cell is a numpy scalar, \<open>int64\<close> or \<open>float64\<close>. Compared with a Python number
  of the other kind, the integer operand is converted to a double first: an \<open>int\<close>
  threshold against a \<open>float64\<close> cell (\<open>OverflowError\<close> beyond the range of doubles), an
  \<open>int64\<close> cell against a \<open>float\<close> threshold. \<open>cell_gt\<close> is this comparison; on the
  Python \<open>0\<close> that stands in for a missing maximum it agrees with \<open>py_gt\<close>. A row count
  is far below \<open>2 ^ 53\<close>, where the conversion changes nothing, so the volume check
  compares by exact value. Against a threshold that is not a number the comparison is
  Python's (\<open>TypeError\<close>); the message numpy words for it, and its element-wise
  comparison with a list, are not modelled.
\<close>

record database =
  connect :: "pyval \<Rightarrow> exn option"
  count_query :: "string \<Rightarrow> exn + int"
  max_query :: "string \<Rightarrow> exn + pyval"
  latest_query :: "exn + pyval"
  commit :: "exn option"
  rollback :: "exn option"

definition to_double :: "int \<Rightarrow> exn + rat" where
  "to_double i =
     (if pow2 1024 \<le> \<bar>fl (of_int i)\<bar>
      then Inl (OverflowError ''int too large to convert to float'')
      else Inr (fl (of_int i)))"

definition cell_gt :: "pyval \<Rightarrow> pyval \<Rightarrow> exn + bool" where
  "cell_gt a b =
     (case (a, b) of
        (PFloat x, PInt i) \<Rightarrow> (case to_double i of Inl e \<Rightarrow> Inl e | Inr y \<Rightarrow> Inr (y < x))
      | (PInt n, PFloat y) \<Rightarrow> Inr (y < fl (of_int n))
      | _ \<Rightarrow> py_gt a b)"

text \<open>
  Each check returns the issues it appends, or the exception that interrupts it. In the
  source every statement of a check that can raise comes before its \<open>append\<close>, so a check
  that raises has appended nothing. Each appended issue is also logged; logging does not
  raise and is not part of the result.
\<close>

definition volume_check :: "pydict \<Rightarrow> database \<Rightarrow> string \<Rightarrow> exn + string list" where
  "volume_check cfg db today =
     (case count_query db today of Inl e \<Rightarrow> Inl e | Inr daily_count \<Rightarrow>
      case getitem2 (PDict cfg) ''quality_thresholds'' ''min_daily_transactions'' of
        Inl e \<Rightarrow> Inl e | Inr min_threshold \<Rightarrow>
      case py_lt (PInt daily_count) min_threshold of
        Inl e \<Rightarrow> Inl e
      | Inr False \<Rightarrow> Inr []
      | Inr True \<Rightarrow>
          Inr [''Low transaction count today: '' @ py_str (PInt daily_count)
               @ '' (expected: >'' @ py_str min_threshold @ '')''])"

definition outlier_check :: "pydict \<Rightarrow> database \<Rightarrow> string \<Rightarrow> exn + string list" where
  "outlier_check cfg db today =
     (case max_query db today of Inl e \<Rightarrow> Inl e | Inr cell \<Rightarrow>
      let max_amount = (if py_bool cell then cell else PInt 0) in
      case getitem2 (PDict cfg) ''quality_thresholds'' ''max_transaction_amount'' of
        Inl e \<Rightarrow> Inl e | Inr max_threshold \<Rightarrow>
      case cell_gt max_amount max_threshold of
        Inl e \<Rightarrow> Inl e
      | Inr False \<Rightarrow> Inr []
      | Inr True \<Rightarrow>
          (case py_format_f True 2 max_amount of
             Inl e \<Rightarrow> Inl e
           | Inr txt \<Rightarrow> Inr [''Unusually high transaction detected: $'' @ txt]))"

definition freshness_check :: "pydict \<Rightarrow> database \<Rightarrow> datetime \<Rightarrow> exn + string list" where
  "freshness_check cfg db now =
     (case latest_query db of Inl e \<Rightarrow> Inl e | Inr cell \<Rightarrow>
      if \<not> py_bool cell then Inr []
      else
        case strptime_ymd cell of Inl e \<Rightarrow> Inl e | Inr latest_date \<Rightarrow>
        let hours_old = hours_of (to_micro now - to_micro latest_date) in
        case getitem2 (PDict cfg) ''quality_thresholds'' ''data_freshness_hours'' of
          Inl e \<Rightarrow> Inl e | Inr freshness_threshold \<Rightarrow>
        case py_gt (PFloat hours_old) freshness_threshold of
          Inl e \<Rightarrow> Inl e
        | Inr False \<Rightarrow> Inr []
        | Inr True \<Rightarrow>
            Inr [''Data is stale: '' @ format_fixed False 1 hours_old
                 @ '' hours old (threshold: '' @ py_str freshness_threshold @ ''h)''])"

text \<open>
  The body of the \<open>with\<close> block: the issues appended so far and the exception that ended
  it, if any. \<open>now1\<close> is the clock when \<open>today\<close> is computed, \<open>now2\<close> the clock when the
  freshness check reads it.
\<close>

definition run_checks ::
  "pydict \<Rightarrow> database \<Rightarrow> datetime \<Rightarrow> datetime \<Rightarrow> string list \<times> exn option" where
  "run_checks cfg db now1 now2 =
     (let today = strftime_ymd now1 in
      case volume_check cfg db today of Inl e \<Rightarrow> ([], Some e) | Inr vs \<Rightarrow>
      case outlier_check cfg db today of Inl e \<Rightarrow> (vs, Some e) | Inr os \<Rightarrow>
      case freshness_check cfg db now2 of Inl e \<Rightarrow> (vs @ os, Some e) | Inr fs \<Rightarrow>
      (vs @ os @ fs, None))"

text \<open>
  The \<open>try\<close> block: evaluating \<open>self.config['database_path']\<close>, connecting, the body, and
  leaving the \<open>with\<close> block.
\<close>

definition try_block ::
  "pydict \<Rightarrow> database \<Rightarrow> datetime \<Rightarrow> datetime \<Rightarrow> string list \<times> exn option" where
  "try_block cfg db now1 now2 =
     (case getitem (PDict cfg) ''database_path'' of Inl e \<Rightarrow> ([], Some e) | Inr path \<Rightarrow>
      case connect db path of Some e \<Rightarrow> ([], Some e) | None \<Rightarrow>
      case run_checks cfg db now1 now2 of
        (issues, None) \<Rightarrow> (issues, commit db)
      | (issues, Some e) \<Rightarrow>
          (case rollback db of None \<Rightarrow> (issues, Some e) | Some e' \<Rightarrow> (issues, Some e')))"

definition check_failed :: "exn \<Rightarrow> string" where
  "check_failed e = ''Data quality check failed: '' @ exn_str e"

text \<open>The method: the \<open>except Exception\<close> handler appends one issue and the list is returned.\<close>

definition validate_data_quality ::
  "pydict \<Rightarrow> database \<Rightarrow> datetime \<Rightarrow> datetime \<Rightarrow> string list" where
  "validate_data_quality cfg db now1 now2 =
     (case try_block cfg db now1 now2 of
        (quality_issues, None) \<Rightarrow> quality_issues
      | (quality_issues, Some e) \<Rightarrow> quality_issues @ [check_failed e])"

subsection \<open>Vocabulary for the properties of \<open>validate_data_quality\<close>\<close>

text \<open>The three kinds of issue, told apart by the fixed text each begins with.\<close>

definition starts_with :: "string \<Rightarrow> string \<Rightarrow> bool" where
  "starts_with p s \<longleftrightarrow> take (length p) s = p"

definition is_volume_issue :: "string \<Rightarrow> bool" where
  "is_volume_issue = starts_with ''Low transaction count today: ''"

definition is_outlier_issue :: "string \<Rightarrow> bool" where
  "is_outlier_issue = starts_with ''Unusually high transaction detected: $''"

definition is_freshness_issue :: "string \<Rightarrow> bool" where
  "is_freshness_issue = starts_with ''Data is stale: ''"

text \<open>The configured database path is there and \<open>sqlite3.connect\<close> accepts it.\<close>

definition db_connected :: "pydict \<Rightarrow> database \<Rightarrow> bool" where
  "db_connected cfg db =
     (case getitem (PDict cfg) ''database_path'' of
        Inl e \<Rightarrow> False
      | Inr path \<Rightarrow> connect db path = None)"

text \<open>The issues a check has appended; none when it raised.\<close>

definition issues_of :: "exn + string list \<Rightarrow> string list" where
  "issues_of r = (case r of Inl e \<Rightarrow> [] | Inr xs \<Rightarrow> xs)"

text \<open>
  The exception that leaves the \<open>with\<close> block when its body raises \<open>e\<close>: \<open>e\<close> itself,
  unless the rollback raises in turn.
\<close>

definition propagated :: "database \<Rightarrow> exn \<Rightarrow> exn" where
  "propagated db e = (case rollback db of None \<Rightarrow> e | Some e' \<Rightarrow> e')"

text \<open>Databases and clock readings used as examples below.\<close>

definition midnight :: "int \<Rightarrow> int \<Rightarrow> int \<Rightarrow> datetime" where
  "midnight y m d =
     \<lparr>year = y, month = m, day = d, hour = 0, minute = 0, second = 0, microsecond = 0\<rparr>"

definition healthy_db :: database where
  "healthy_db =
     \<lparr>connect = (\<lambda>path. None),
      count_query = (\<lambda>today. Inr 100),
      max_query = (\<lambda>today. Inr (PFloat 10000)),
      latest_query = Inr (PStr ''2024-01-01''),
      commit = None,
      rollback = None\<rparr>"

definition unable_to_open :: exn where
  "unable_to_open = External ''OperationalError'' ''unable to open database file''"

definition no_such_table :: exn where
  "no_such_table = External ''DatabaseError'' ''no such table: sales_transactions''"

definition unreachable_db :: database where
  "unreachable_db = healthy_db\<lparr>connect := \<lambda>path. Some unable_to_open\<rparr>"

definition schemaless_db :: database where
  "schemaless_db = healthy_db\<lparr>count_query := \<lambda>today. Inl no_such_table\<rparr>"

definition low_volume_db :: database where
  "low_volume_db = healthy_db\<lparr>count_query := \<lambda>today. Inr 99\<rparr>"

definition locked_db :: database where
  "locked_db = healthy_db\<lparr>count_query := \<lambda>today. Inr 50,
     max_query := \<lambda>today. Inl (External ''DatabaseError'' ''database is locked'')\<rparr>"

text \<open>\<open>10000.01\<close> as a double.\<close>

definition amount_10000_01 :: rat where
  "amount_10000_01 = 5497563636438139 / 549755813888"

definition outlier_db :: database where
  "outlier_db = healthy_db\<lparr>max_query := \<lambda>today. Inr (PFloat amount_10000_01)\<rparr>"

definition stale_locked_db :: database where
  "stale_locked_db = outlier_db\<lparr>count_query := \<lambda>today. Inr 50,
     latest_query := Inl (External ''DatabaseError'' ''database is locked'')\<rparr>"

text \<open>
  The configurations \<open>load_config\<close> returns for a file that sets nothing but the outlier
  threshold (to 5000), and for one that sets nothing but the freshness threshold (to 24
  hours).
\<close>

definition outlier_only_config :: pydict where
  "outlier_only_config =
     config (load_config (Present (Inr (PDict
       [(PStr ''quality_thresholds'', PDict [(PStr ''max_transaction_amount'', PInt 5000)])]))))"

definition freshness_only_config :: pydict where
  "freshness_only_config =
     config (load_config (Present (Inr (PDict
       [(PStr ''quality_thresholds'', PDict [(PStr ''data_freshness_hours'', PInt 24)])]))))"

definition at_time :: "datetime \<Rightarrow> int \<Rightarrow> int \<Rightarrow> int \<Rightarrow> datetime" where
  "at_time t h m s = t\<lparr>hour := h, minute := m, second := s\<rparr>"

section \<open>The file system\<close>

text \<open>
  A path is the list of its components, as \<open>pathlib\<close> splits it (empty components and
  \<open>.\<close> dropped, the root kept as a first component \<open>/\<close>); the empty list is the current
  directory. The file system is the list of the existing paths, each with its node, in the
  order in which a directory listing reports them; no path occurs twice. A file has a
  modification time (seconds since the epoch, a float) and a content. Links and \<open>..\<close> are
  not resolved, and permissions and device errors are not modelled: an operation fails when
  the paths involved do not exist or have the wrong kind.
\<close>

datatype node = File rat string | Dir

type_synonym path = "string list"

type_synonym filesystem = "(path \<times> node) list"

fun split_slash :: "string \<Rightarrow> string list" where
  "split_slash [] = [[]]"
| "split_slash (c # s) =
     (if c = CHR ''/'' then [] # split_slash s
      else (case split_slash s of x # xs \<Rightarrow> (c # x) # xs | [] \<Rightarrow> [[c]]))"

definition parse_path :: "string \<Rightarrow> path" where
  "parse_path s =
     (if take 1 s = ''/'' then [''/''] else [])
     @ filter (\<lambda>c. c \<noteq> [] \<and> c \<noteq> ''.'') (split_slash s)"

text \<open>\<open>str(p)\<close> for a \<open>Path\<close>.\<close>

definition path_str :: "path \<Rightarrow> string" where
  "path_str p =
     (case p of
        [] \<Rightarrow> ''.''
      | c # cs \<Rightarrow> if c = ''/'' then ''/'' @ join ''/'' cs else join ''/'' p)"

text \<open>\<open>os.path.basename(s)\<close>: what follows the last slash.\<close>

definition basename :: "string \<Rightarrow> string" where
  "basename s = last (split_slash s)"

definition is_dir :: "filesystem \<Rightarrow> path \<Rightarrow> bool" where
  "is_dir fs p \<longleftrightarrow> p = [] \<or> p = [''/''] \<or> map_of fs p = Some Dir"

definition os_error :: "string \<Rightarrow> string \<Rightarrow> string \<Rightarrow> string \<Rightarrow> exn" where
  "os_error cls errno what name =
     External cls (''[Errno '' @ errno @ ''] '' @ what @ '': '' @ str_repr name)"

text \<open>\<open>Path(v)\<close> for a configuration value.\<close>

definition to_path :: "pyval \<Rightarrow> exn + path" where
  "to_path v =
     (case v of
        PStr s \<Rightarrow> Inr (parse_path s)
      | _ \<Rightarrow> Inl (TypeError (''expected str, bytes or os.PathLike object, not ''
                              @ type_name v)))"

text \<open>\<open>p.mkdir(exist_ok=True)\<close>: creates one directory, below an existing parent.\<close>

definition mkdir_exist_ok :: "filesystem \<Rightarrow> path \<Rightarrow> exn + filesystem" where
  "mkdir_exist_ok fs p =
     (if is_dir fs p then Inr fs
      else case map_of fs p of
        Some n \<Rightarrow> Inl (os_error ''FileExistsError'' ''17'' ''File exists'' (path_str p))
      | None \<Rightarrow>
          if is_dir fs (butlast p) then Inr (AList.update p Dir fs)
          else if map_of fs (butlast p) = None
          then Inl (os_error ''FileNotFoundError'' ''2'' ''No such file or directory''
                      (path_str p))
          else Inl (os_error ''NotADirectoryError'' ''20'' ''Not a directory'' (path_str p)))"

text \<open>
  \<open>shutil.copy2(src, dst)\<close> for a configuration value \<open>src\<close> and a \<open>Path\<close> \<open>dst\<close>. When
  \<open>dst\<close> is a directory the copy goes into it, under the base name of \<open>src\<close>. Source and
  destination must not be the same file; the source must be a file, and the destination
  must not be a directory. The copy has the content and the modification time of the
  source (\<open>copystat\<close>).
\<close>

definition copy2 :: "filesystem \<Rightarrow> pyval \<Rightarrow> path \<Rightarrow> exn + filesystem" where
  "copy2 fs src dst =
     (case src of
        PStr s \<Rightarrow>
          let target = (if is_dir fs dst then dst @ [basename s] else dst);
              target_name = (if is_dir fs dst then path_str dst @ ''/'' @ basename s
                             else path_str dst)
          in if map_of fs (parse_path s) \<noteq> None \<and> parse_path s = target
             then Inl (External ''SameFileError''
                         (str_repr s @ '' and ''
                          @ (if is_dir fs dst then str_repr target_name
                             else ''PosixPath('' @ str_repr target_name @ '')'')
                          @ '' are the same file''))
             else if s \<noteq> [] \<and> is_dir fs (parse_path s)
             then Inl (os_error ''IsADirectoryError'' ''21'' ''Is a directory'' s)
             else (case map_of fs (parse_path s) of
                None \<Rightarrow>
                  Inl (os_error ''FileNotFoundError'' ''2'' ''No such file or directory'' s)
              | Some Dir \<Rightarrow> Inl (os_error ''IsADirectoryError'' ''21'' ''Is a directory'' s)
              | Some (File m c) \<Rightarrow>
                  if s \<noteq> [] \<and> last s = CHR ''/''
                  then Inl (os_error ''NotADirectoryError'' ''20'' ''Not a directory'' s)
                  else if is_dir fs target
                  then Inl (os_error ''IsADirectoryError'' ''21'' ''Is a directory''
                              target_name)
                  else Inr (AList.update target (File m c) fs))
      | PInt i \<Rightarrow> Inl (External ''OSError'' ''[Errno 9] Bad file descriptor'')
      | PBool b \<Rightarrow> Inl (External ''OSError'' ''[Errno 9] Bad file descriptor'')
      | _ \<Rightarrow> Inl (TypeError (''stat: path should be string, bytes, os.PathLike or integer, not ''
                              @ type_name src)))"

text \<open>
  \<open>d.glob("sales_backup_*.db")\<close>: the entries of the directory \<open>d\<close> whose name begins with
  \<open>sales_backup_\<close> and ends with \<open>.db\<close>, files and directories alike, in listing order.
\<close>

definition glob_match :: "string \<Rightarrow> bool" where
  "glob_match name \<longleftrightarrow>
     16 \<le> length name \<and> take 13 name = ''sales_backup_''
     \<and> drop (length name - 3) name = ''.db''"

definition entry_of :: "path \<Rightarrow> path \<Rightarrow> bool" where
  "entry_of d p \<longleftrightarrow> p \<noteq> [] \<and> butlast p = d"

definition glob_backups :: "filesystem \<Rightarrow> path \<Rightarrow> path list" where
  "glob_backups fs d =
     map fst (filter (\<lambda>e. entry_of d (fst e) \<and> glob_match (last (fst e))) fs)"

section \<open>\<open>SalesAutomationManager.create_backup\<close>\<close>

text \<open>
  What \<open>create_backup\<close> finds: the file system; the modification time the system reports
  for a directory when asked (it changes with every entry created or removed, and is not
  tracked in the file system above); the local clock when the backup's name is formed
  (\<open>stamp_now\<close>) and when the cutoff is computed (\<open>cutoff_now\<close>); and the offset of
  local time from UTC in seconds, taken to be the same a week earlier.
\<close>

record world =
  files :: filesystem
  dir_mtime :: "path \<Rightarrow> rat"
  stamp_now :: datetime
  cutoff_now :: datetime
  utc_offset :: int

datatype level = INFO | WARNING | ERROR

text \<open>
  What it leaves: the file system as the directory creation, the copy and the cleanup
  leave it; the records handed to the logger, which its handlers print and append to the
  log file (\<open>disk_after\<close> below is the file system with that done); and the calls of
  \<open>send_alert\<close> (subject and message).
\<close>

record outcome =
  files_after :: filesystem
  logged :: "(level \<times> string) list"
  alerts :: "(string \<times> string) list"

text \<open>\<open>t.strftime('%Y%m%d_%H%M%S')\<close>.\<close>

definition strftime_stamp :: "datetime \<Rightarrow> string" where
  "strftime_stamp t =
     pad_left 4 (dec_nat (year t)) @ pad_left 2 (dec_nat (month t))
     @ pad_left 2 (dec_nat (day t)) @ ''_'' @ pad_left 2 (dec_nat (hour t))
     @ pad_left 2 (dec_nat (minute t)) @ pad_left 2 (dec_nat (second t))"

definition backup_file :: "path \<Rightarrow> datetime \<Rightarrow> path" where
  "backup_file backup_dir t = backup_dir @ [''sales_backup_'' @ strftime_stamp t @ ''.db'']"

text \<open>
  Lines 98 to 106: the backup directory, made if need be, and the copy of the database
  into it. The result is the file system as these lines leave it, and the backup
  directory or the exception that interrupted them.
\<close>

definition backup_dir_of :: "pydict \<Rightarrow> exn + path" where
  "backup_dir_of cfg =
     (case getitem (PDict cfg) ''backup_path'' of Inl e \<Rightarrow> Inl e | Inr v \<Rightarrow> to_path v)"

definition make_copy :: "pydict \<Rightarrow> world \<Rightarrow> filesystem \<times> (exn + path)" where
  "make_copy cfg w =
     (case backup_dir_of cfg of Inl e \<Rightarrow> (files w, Inl e) | Inr backup_dir \<Rightarrow>
      case mkdir_exist_ok (files w) backup_dir of Inl e \<Rightarrow> (files w, Inl e) | Inr fs1 \<Rightarrow>
      case getitem (PDict cfg) ''database_path'' of Inl e \<Rightarrow> (fs1, Inl e) | Inr src \<Rightarrow>
      case copy2 fs1 src (backup_file backup_dir (stamp_now w)) of
        Inl e \<Rightarrow> (fs1, Inl e)
      | Inr fs2 \<Rightarrow> (fs2, Inr backup_dir))"

text \<open>
  \<open>(datetime.now() - timedelta(days=7)).timestamp()\<close>: the subtraction fails before year
  1; the timestamp is the whole seconds since the epoch plus the microseconds over
  \<open>1e6\<close>, in float arithmetic.
\<close>

definition epoch_seconds :: int where
  "epoch_seconds = 62135596800"

definition cutoff_timestamp :: "world \<Rightarrow> exn + rat" where
  "cutoff_timestamp w =
     (let us = to_micro (cutoff_now w) - 7 * 86400 * 1000000
      in if us < 0 then Inl (OverflowError ''date value out of range'')
         else Inr (fl (of_int (us div 1000000 - epoch_seconds - utc_offset w)
                       + fl (of_int (us mod 1000000) / 1000000))))"

text \<open>
  The cleanup loop over the entries the glob has listed. \<open>stat\<close> and \<open>unlink\<close> raise on a
  path that is not there, and \<open>unlink\<close> raises on a directory; an exception ends the loop.
\<close>

fun prune ::
  "(path \<Rightarrow> rat) \<Rightarrow> rat \<Rightarrow> path list \<Rightarrow> filesystem
     \<Rightarrow> filesystem \<times> (level \<times> string) list \<times> exn option" where
  "prune dm cutoff [] fs = (fs, [], None)"
| "prune dm cutoff (p # ps) fs =
     (case map_of fs p of
        None \<Rightarrow>
          (fs, [], Some (os_error ''FileNotFoundError'' ''2'' ''No such file or directory''
                           (path_str p)))
      | Some Dir \<Rightarrow>
          if dm p < cutoff
          then (fs, [], Some (os_error ''IsADirectoryError'' ''21'' ''Is a directory''
                                (path_str p)))
          else prune dm cutoff ps fs
      | Some (File m c) \<Rightarrow>
          if m < cutoff
          then (case prune dm cutoff ps (AList.delete p fs) of
                  (fs', lg, r) \<Rightarrow> (fs', (INFO, ''Removed old backup: '' @ path_str p) # lg, r))
          else prune dm cutoff ps fs)"

text \<open>The \<open>try\<close> block: the state it leaves, what it logged, and the exception, if any.\<close>

definition backup_try ::
  "pydict \<Rightarrow> world \<Rightarrow> filesystem \<times> (level \<times> string) list \<times> exn option" where
  "backup_try cfg w =
     (case make_copy cfg w of
        (fs, Inl e) \<Rightarrow> (fs, [], Some e)
      | (fs2, Inr backup_dir) \<Rightarrow>
          let created = (INFO, ''Database backup created: ''
                               @ path_str (backup_file backup_dir (stamp_now w)))
          in case cutoff_timestamp w of
               Inl e \<Rightarrow> (fs2, [created], Some e)
             | Inr cutoff \<Rightarrow>
                 (case prune (dir_mtime w) cutoff (glob_backups fs2 backup_dir) fs2 of
                    (fs3, lg, r) \<Rightarrow> (fs3, created # lg, r)))"

definition create_backup :: "pydict \<Rightarrow> world \<Rightarrow> outcome" where
  "create_backup cfg w =
     (case backup_try cfg w of
        (fs, lg, None) \<Rightarrow> \<lparr>files_after = fs, logged = lg, alerts = []\<rparr>
      | (fs, lg, Some e) \<Rightarrow>
          \<lparr>files_after = fs,
           logged = lg @ [(ERROR, ''Backup failed: '' @ exn_str e)],
           alerts = [(''Backup Failed'', ''Database backup failed: '' @ exn_str e)]\<rparr>)"


subsection \<open>The log file\<close>









subsection \<open>Vocabulary for the properties of \<open>create_backup\<close>\<close>

definition is_file :: "node \<Rightarrow> bool" where
  "is_file n = (case n of File m c \<Rightarrow> True | Dir \<Rightarrow> False)"



text \<open>
  The exact time, in seconds since the epoch, at which the cutoff is computed; and the
  range of clocks considered: at least a week after the beginning of year 1, before the
  year 10000, with a UTC offset of at most a day.
\<close>

definition posix_now :: "world \<Rightarrow> rat" where
  "posix_now w =
     of_int (to_micro (cutoff_now w)) / 1000000 - of_int epoch_seconds - of_int (utc_offset w)"

definition clock_ok :: "world \<Rightarrow> bool" where
  "clock_ok w \<longleftrightarrow>
     7 * 86400 * 1000000 \<le> to_micro (cutoff_now w)
     \<and> to_micro (cutoff_now w) < 10 ^ 18 \<and> \<bar>utc_offset w\<bar> \<le> 86400"

text \<open>
  An example: at 2024-01-10 12:00:00 UTC (1704888000 seconds since the epoch) the backup
  directory holds backups last modified 8 days, 6 days and 29 days earlier, and a file
  of another name; the database and another file lie outside it.
\<close>

definition example_now :: datetime where
  "example_now = at_time (midnight 2024 1 10) 12 0 0"

definition old_backup :: path where
  "old_backup = [''backups'', ''sales_backup_20240102_120000.db'']"

definition young_backup :: path where
  "young_backup = [''backups'', ''sales_backup_20240104_120000.db'']"

definition month_old_backup :: path where
  "month_old_backup = [''backups'', ''sales_backup_20231212_120000.db'']"

definition notes_file :: path where
  "notes_file = [''backups'', ''notes.txt'']"

definition report_file :: path where
  "report_file = [''report.csv'']"

definition source_missing :: exn where
  "source_missing = os_error ''FileNotFoundError'' ''2'' ''No such file or directory'' ''sales_data.db''"

definition sample_world :: world where
  "sample_world =
     \<lparr>files =
        [([''backups''], Dir),
         (old_backup, File 1704196800 ''old''),
         (young_backup, File 1704369600 ''young''),
         (month_old_backup, File 1702382400 ''older''),
         (notes_file, File 1702296000 ''notes''),
         ([''sales_data.db''], File 1704880000 ''data''),
         (report_file, File 1702296000 ''report'')],
      dir_mtime = (\<lambda>p. 1704880000),
      stamp_now = example_now,
      cutoff_now = example_now,
      utc_offset = 0\<rparr>"

definition no_database_world :: world where
  "no_database_world = sample_world\<lparr>files := AList.delete [''sales_data.db''] (files sample_world)\<rparr>"

text \<open>
  The default configuration with a retention window of 30 days added under a key of
  its own.
\<close>

definition retention_config :: pydict where
  "retention_config = dict_set default_config (PStr ''retention_days'') (PInt 30)"






section \<open>Properties of rounding to a double\<close>

lemma pow2_powi: "pow2 k = 2 powi k"
  by (simp add: pow2_def power_int_def inverse_eq_divide power_one_over)

lemma pow2_pos: "0 < pow2 k"
  by (simp add: pow2_powi zero_less_power_int)

lemma pow2_add: "pow2 (a + b) = pow2 a * pow2 b"
  by (simp add: pow2_powi power_int_add)

lemma pow2_le: "a \<le> b \<Longrightarrow> pow2 a \<le> pow2 b"
  by (simp add: pow2_powi power_int_increasing)

lemma pow2_less: "a < b \<Longrightarrow> pow2 a < pow2 b"
  by (simp add: pow2_powi power_int_strict_increasing)

lemma pow2_less_cancel: "pow2 a < pow2 b \<Longrightarrow> a < b"
  using pow2_le [of b a] by (cases "a < b") auto

lemma pow2_nat: "0 \<le> k \<Longrightarrow> pow2 k = of_int (2 ^ nat k)"
  by (simp add: pow2_def)

lemma pow2_grid: "k \<le> j \<Longrightarrow> pow2 j = of_int (2 ^ nat (j - k)) * pow2 k"
  using pow2_add [of "j - k" k] by (simp add: pow2_nat)

lemma rhe_of_int: "rhe (of_int n) = n"
  by (simp add: rhe_def)

lemma rhe_floor: "\<lfloor>x\<rfloor> \<le> rhe x \<and> rhe x \<le> \<lfloor>x\<rfloor> + 1"
  by (simp add: rhe_def Let_def)

lemma rhe_mono:
  assumes "x \<le> y"
  shows "rhe x \<le> rhe y"
proof (cases "\<lfloor>x\<rfloor> = \<lfloor>y\<rfloor>")
  case True
  with assms show ?thesis by (auto simp: rhe_def Let_def)
next
  case False
  with assms have "\<lfloor>x\<rfloor> + 1 \<le> \<lfloor>y\<rfloor>" using floor_mono [OF assms] by linarith
  with rhe_floor [of x] rhe_floor [of y] show ?thesis by linarith
qed

lemma round_to_grid: "0 < u \<Longrightarrow> round_to u (of_int n * u) = of_int n * u"
  by (simp add: round_to_def rhe_of_int)

lemma round_to_mono: "0 < u \<Longrightarrow> x \<le> y \<Longrightarrow> round_to u x \<le> round_to u y"
  by (simp add: round_to_def rhe_mono divide_right_mono)

lemma round_to_nonneg: "0 < u \<Longrightarrow> 0 \<le> x \<Longrightarrow> 0 \<le> round_to u x"
  using rhe_mono [of 0 "x / u"] rhe_of_int [of 0] by (simp add: round_to_def)

lemma ilog2_bounds:
  assumes "0 < a"
  shows "pow2 (ilog2 a) \<le> a \<and> a < pow2 (ilog2 a + 1)"
proof -
  obtain n d where q: "quotient_of a = (n, d)" by (cases "quotient_of a")
  then have d: "0 < d" and a: "a = of_int n / of_int d"
    by (auto dest: quotient_of_denom_pos quotient_of_div)
  with assms have n: "0 < n" by (simp add: zero_less_divide_iff)
  define bn bd where "bn = bitlen n" and "bd = bitlen d"
  have bn: "1 \<le> bn" and bd: "1 \<le> bd"
    using n d bitlen_eq_zero_iff [of n] bitlen_eq_zero_iff [of d]
      bitlen_nonneg [of n] bitlen_nonneg [of d]
    by (auto simp: bn_def bd_def)
  have n1: "pow2 (bn - 1) \<le> of_int n" and n2: "of_int n < pow2 bn"
    using bitlen_bounds [OF n] bn
    by (simp_all add: pow2_nat bn_def del: of_int_power)
  have d1: "pow2 (bd - 1) \<le> of_int d" and d2: "of_int d < pow2 bd"
    using bitlen_bounds [OF d] bd
    by (simp_all add: pow2_nat bd_def del: of_int_power)
  have up: "a < pow2 (bn - bd + 1)"
  proof -
    have "of_int n < pow2 bn" by (rule n2)
    also have "\<dots> = pow2 (bn - bd + 1) * pow2 (bd - 1)" by (simp flip: pow2_add)
    also have "\<dots> \<le> pow2 (bn - bd + 1) * of_int d"
      using d1 pow2_pos [of "bn - bd + 1"] by (simp add: mult_left_mono)
    finally show ?thesis using d by (simp add: a pos_divide_less_eq)
  qed
  have lo: "pow2 (bn - bd - 1) < a"
  proof -
    have "pow2 (bn - bd - 1) * of_int d < pow2 (bn - bd - 1) * pow2 bd"
      using d2 pow2_pos [of "bn - bd - 1"] by (simp add: mult_strict_left_mono)
    also have "\<dots> = pow2 (bn - 1)" by (simp flip: pow2_add)
    also have "\<dots> \<le> of_int n" by (rule n1)
    finally show ?thesis using d by (simp add: a pos_less_divide_eq)
  qed
  show ?thesis
  proof (cases "pow2 (bn - bd) \<le> a")
    case True
    then have "ilog2 a = bn - bd" by (simp add: ilog2_def q bn_def bd_def)
    with True up show ?thesis by simp
  next
    case False
    then have "ilog2 a = bn - bd - 1" by (simp add: ilog2_def q bn_def bd_def)
    with False lo show ?thesis by simp
  qed
qed

lemma ilog2_mono:
  assumes "0 < x" "x \<le> y"
  shows "ilog2 x \<le> ilog2 y"
proof -
  have "pow2 (ilog2 x) \<le> x" using ilog2_bounds [of x] assms by simp
  also have "\<dots> \<le> y" by fact
  also have "\<dots> < pow2 (ilog2 y + 1)" using ilog2_bounds [of y] assms by simp
  finally show ?thesis using pow2_less_cancel by fastforce
qed

lemma fl_minus: "fl (- x) = - fl x"
  by (simp add: fl_def sgn_if)

lemma fl_pos_mono:
  assumes "0 < x" "x \<le> y"
  shows "fl x \<le> fl y"
proof -
  define ex ey where "ex = ilog2 x" and "ey = ilog2 y"
  define kx ky where "kx = max ex (- 1022) - 52" and "ky = max ey (- 1022) - 52"
  have y: "0 < y" using assms by simp
  have fx: "fl x = round_to (pow2 kx) x" and fy: "fl y = round_to (pow2 ky) y"
    using assms y by (simp_all add: fl_def kx_def ky_def ex_def ey_def)
  have exy: "ex \<le> ey" unfolding ex_def ey_def using assms by (rule ilog2_mono)
  show ?thesis
  proof (cases "kx = ky")
    case True
    then show ?thesis using assms by (simp add: fx fy round_to_mono pow2_pos)
  next
    case False
    with exy have lt: "max ex (- 1022) < ey" and ky: "ky = ey - 52"
      by (auto simp: kx_def ky_def max_def split: if_splits)
    have j1: "kx \<le> ey" and j2: "ky \<le> ey" using lt ky by (auto simp: kx_def)
    have "x < pow2 (ex + 1)" using ilog2_bounds [OF assms(1)] by (simp add: ex_def)
    also have "\<dots> \<le> pow2 ey" using lt by (intro pow2_le) simp
    finally have "round_to (pow2 kx) x \<le> round_to (pow2 kx) (pow2 ey)"
      by (intro round_to_mono pow2_pos) simp
    also have "\<dots> = pow2 ey"
      using round_to_grid [where u = "pow2 kx" and n = "2 ^ nat (ey - kx)"] pow2_grid [OF j1]
      by (simp add: pow2_pos)
    also have "\<dots> = round_to (pow2 ky) (pow2 ey)"
      using round_to_grid [where u = "pow2 ky" and n = "2 ^ nat (ey - ky)"] pow2_grid [OF j2]
      by (simp add: pow2_pos)
    also have "\<dots> \<le> round_to (pow2 ky) y"
      using ilog2_bounds [OF y] by (intro round_to_mono pow2_pos) (simp add: ey_def)
    finally show ?thesis by (simp add: fx fy)
  qed
qed

lemma fl_nonneg: "0 \<le> x \<Longrightarrow> 0 \<le> fl x"
  by (simp add: fl_def sgn_if round_to_nonneg pow2_pos)

lemma fl_mono:
  assumes "x \<le> y"
  shows "fl x \<le> fl y"
proof -
  consider "0 < x" | "x \<le> 0" "0 \<le> y" | "y < 0" by linarith
  then show ?thesis
  proof cases
    case 1
    then show ?thesis using assms by (rule fl_pos_mono)
  next
    case 2
    then have "fl x \<le> 0" "0 \<le> fl y"
      using fl_nonneg [of "- x"] fl_nonneg [of y] by (simp_all add: fl_minus)
    then show ?thesis by simp
  next
    case 3
    then have "fl (- y) \<le> fl (- x)" using assms by (intro fl_pos_mono) simp_all
    then show ?thesis by (simp add: fl_minus)
  qed
qed

lemma fl_exact_pos:
  assumes m: "0 < m" "m < 2 ^ 53" and k: "- 1074 \<le> k"
  shows "fl (of_int m * pow2 k) = of_int m * pow2 k"
proof -
  define d where "d = of_int m * pow2 k"
  have d: "0 < d" using m pow2_pos [of k] by (simp add: d_def)
  define K where "K = max (ilog2 d) (- 1022) - 52"
  have "pow2 (ilog2 d) \<le> d" using ilog2_bounds [OF d] by simp
  also have "d < of_int (2 ^ 53) * pow2 k"
    unfolding d_def using m pow2_pos [of k] by (intro mult_strict_right_mono) simp_all
  also have "\<dots> = pow2 (53 + k)" by (simp add: pow2_add pow2_nat)
  finally have "ilog2 d < 53 + k" by (rule pow2_less_cancel)
  with k have Kk: "K \<le> k" by (simp add: K_def)
  have "d = of_int (m * 2 ^ nat (k - K)) * pow2 K"
    using pow2_grid [OF Kk] by (simp add: d_def)
  then have "round_to (pow2 K) d = d"
    using round_to_grid [where u = "pow2 K" and n = "m * 2 ^ nat (k - K)"]
    by (simp add: pow2_pos)
  then show ?thesis using d by (simp add: fl_def K_def flip: d_def)
qed

lemma fl_exact:
  assumes "is_double x"
  shows "fl x = x"
proof -
  from assms obtain m k
    where x: "x = of_int m * pow2 k" and m: "\<bar>m\<bar> < 2 ^ 53" and k: "- 1074 \<le> k"
    by (auto simp: is_double_def)
  consider "m = 0" | "0 < m" | "m < 0" by linarith
  then show ?thesis
  proof cases
    case 1
    then show ?thesis by (simp add: x fl_def)
  next
    case 2
    then show ?thesis using m k by (simp add: x fl_exact_pos)
  next
    case 3
    then have "fl (of_int (- m) * pow2 k) = of_int (- m) * pow2 k"
      using m k by (intro fl_exact_pos) simp_all
    then show ?thesis using fl_minus [of "of_int m * pow2 k"] by (simp add: x)
  qed
qed

lemma is_double_int: "\<bar>n\<bar> < 2 ^ 53 \<Longrightarrow> is_double (of_int n)"
  unfolding is_double_def by (rule exI [of _ n], rule exI [of _ 0]) (simp add: pow2_def)

lemma fl_int: "\<bar>n\<bar> < 2 ^ 53 \<Longrightarrow> fl (of_int n) = of_int n"
  by (simp add: fl_exact is_double_int)

section \<open>Properties of \<open>load_config\<close>\<close>

lemma dict_get_set:
  "dict_get (dict_set d k v) k' = (if key_norm k = key_norm k' then Some v else dict_get d k')"
proof (induction d)
  case Nil
  then show ?case by simp
next
  case (Cons kv d)
  then show ?case by (cases kv) simp
qed

lemma dict_get_append:
  "dict_get (xs @ ys) k = (case dict_get xs k of None \<Rightarrow> dict_get ys k | Some v \<Rightarrow> Some v)"
  by (induction xs) auto

lemma dict_get_None_iff:
  "dict_get d k = None \<longleftrightarrow> (\<forall>kv \<in> set d. key_norm (fst kv) \<noteq> key_norm k)"
proof (induction d)
  case Nil
  then show ?case by simp
next
  case (Cons kv d)
  then show ?case by (cases kv) simp
qed

lemma dict_get_norm_cong: "key_norm a = key_norm b \<Longrightarrow> dict_get d a = dict_get d b"
  by (induction d) auto

lemma dict_get_foldl:
  "dict_get (foldl (\<lambda>acc kv. dict_set acc (fst kv) (snd kv)) d kvs) k =
     (case dict_get (rev kvs) k of None \<Rightarrow> dict_get d k | Some v \<Rightarrow> Some v)"
  by (induction kvs rule: rev_induct) (auto simp: dict_get_set)

lemma dict_get_rev:
  "distinct_keys kvs \<Longrightarrow> dict_get (rev kvs) k = dict_get kvs k"
proof (induction kvs)
  case Nil
  then show ?case by simp
next
  case (Cons kv kvs)
  then have d: "distinct_keys kvs" and n: "\<forall>x \<in> set kvs. key_norm (fst x) \<noteq> key_norm (fst kv)"
    by (auto simp: distinct_keys_def image_iff)
  show ?case
  proof (cases "key_norm (fst kv) = key_norm k")
    case True
    with n have "dict_get kvs k = None" by (simp add: dict_get_None_iff)
    with True Cons.IH [OF d] show ?thesis
      by (cases kv) (simp add: dict_get_append)
  next
    case False
    with Cons.IH [OF d] show ?thesis
      by (cases kv) (simp add: dict_get_append split: option.splits)
  qed
qed

lemma dict_get_filter:
  "\<forall>kv \<in> set d. key_norm (fst kv) = key_norm k \<longrightarrow> P kv \<Longrightarrow>
   dict_get (filter P d) k = dict_get d k"
proof (induction d)
  case Nil
  then show ?case by simp
next
  case (Cons kv d)
  then show ?case by (cases kv) simp
qed

lemma config_of_object:
  "config (load_config (Present (Inr (PDict user)))) =
     foldl (\<lambda>acc kv. dict_set acc (fst kv) (snd kv)) default_config user"
  by (simp add: load_config_def dict_update_def)

text \<open>
  Claim C2, as amended. The overlay is \<open>dict.update\<close>, a shallow merge. A top-level key
  that the file does not mention keeps its documented default. A top-level section that
  the file does supply (\<open>quality_thresholds\<close>, \<open>email_alerts\<close>, \<open>schedule\<close>, \<open>\<dots>\<close>)
  replaces the default section as a whole: looking a nested key up in the returned
  configuration is looking it up in the section as supplied, so a nested key missing
  there is missing in the result.
\<close>

theorem load_config_top_level_defaults:
  "(dict_get user (PStr key) = None \<longrightarrow>
      dict_get (config (load_config (Present (Inr (PDict user))))) (PStr key)
        = dict_get default_config (PStr key))
   \<and> (distinct_keys user \<and> dict_get user (PStr section) = Some supplied \<longrightarrow>
      getitem2 (PDict (config (load_config (Present (Inr (PDict user)))))) section nested
        = getitem supplied nested)"
proof (intro conjI impI)
  assume "dict_get user (PStr key) = None"
  then have "dict_get (rev user) (PStr key) = None"
    by (simp add: dict_get_None_iff)
  then show "dict_get (config (load_config (Present (Inr (PDict user))))) (PStr key)
        = dict_get default_config (PStr key)"
    by (simp add: config_of_object dict_get_foldl)
next
  assume "distinct_keys user \<and> dict_get user (PStr section) = Some supplied"
  then have "dict_get (rev user) (PStr section) = Some supplied"
    by (simp add: dict_get_rev)
  then show "getitem2 (PDict (config (load_config (Present (Inr (PDict user)))))) section nested
        = getitem supplied nested"
    by (simp add: config_of_object dict_get_foldl getitem2_def getitem_def)
qed

text \<open>
  Claim C8, as amended. Unknown keys are not filtered out: every key of the file, known
  or not, is in the returned configuration with the file's value. They are inert with
  respect to the documented options: the value returned for a documented top-level key
  is the one returned for the file without its unknown keys.
\<close>

theorem load_config_keeps_unknown_keys:
  "(distinct_keys user \<and> dict_get user k = Some v \<longrightarrow>
      dict_get (config (load_config (Present (Inr (PDict user))))) k = Some v)
   \<and> (dict_get default_config k \<noteq> None \<longrightarrow>
      dict_get (config (load_config (Present (Inr (PDict user))))) k
        = dict_get (config (load_config (Present (Inr (PDict (known_keys_only user)))))) k)"
proof (intro conjI impI)
  assume "distinct_keys user \<and> dict_get user k = Some v"
  then show "dict_get (config (load_config (Present (Inr (PDict user))))) k = Some v"
    by (simp add: config_of_object dict_get_foldl dict_get_rev)
next
  assume known: "dict_get default_config k \<noteq> None"
  have "dict_get (filter (\<lambda>kv. dict_get default_config (fst kv) \<noteq> None) (rev user)) k
          = dict_get (rev user) k"
  proof (rule dict_get_filter, intro ballI impI)
    fix kv assume "key_norm (fst kv) = key_norm k"
    then show "dict_get default_config (fst kv) \<noteq> None"
      using known dict_get_norm_cong [of "fst kv" k default_config] by simp
  qed
  then show "dict_get (config (load_config (Present (Inr (PDict user))))) k
        = dict_get (config (load_config (Present (Inr (PDict (known_keys_only user)))))) k"
    by (simp add: config_of_object dict_get_foldl known_keys_only_def rev_filter)
qed


text \<open>
  An instance: the file sets \<open>database_path\<close> and a \<open>quality_thresholds\<close> section with
  \<open>min_daily_transactions\<close> only.
\<close>

theorem load_config_top_level_defaults_witness:
  "dict_get partial_user_config (PStr ''backup_path'') = None
   \<and> dict_get (config (load_config (Present (Inr (PDict partial_user_config)))))
         (PStr ''backup_path'') = Some (PStr ''backups/'')
   \<and> distinct_keys partial_user_config
   \<and> dict_get partial_user_config (PStr ''quality_thresholds'') = Some (PDict partial_thresholds)
   \<and> getitem2 (PDict (config (load_config (Present (Inr (PDict partial_user_config))))))
         ''quality_thresholds'' ''min_daily_transactions'' = Inr (PInt 50)"
  using load_config_top_level_defaults [of partial_user_config "''backup_path''"
      "''quality_thresholds''" "PDict partial_thresholds" "''min_daily_transactions''"]
  by (simp add: partial_user_config_def partial_thresholds_def distinct_keys_def
      default_config_def getitem_def)

text \<open>
  Claim C2 as stated fails for nested keys: with the same file, \<open>max_transaction_amount\<close>
  is missing from the file's \<open>quality_thresholds\<close>, its documented default is \<open>10000\<close>,
  and the returned configuration has no value for it (the lookup raises \<open>KeyError\<close>).
\<close>

theorem load_config_nested_default_counterexample:
  "getitem2 (PDict (config (load_config (Present (Inr (PDict partial_user_config))))))
     ''quality_thresholds'' ''max_transaction_amount''
     = Inl (KeyError (PStr ''max_transaction_amount''))
   \<and> getitem2 (PDict default_config) ''quality_thresholds'' ''max_transaction_amount''
     = Inr (PInt 10000)"
  by (simp add: load_config_def dict_update_def partial_user_config_def partial_thresholds_def
      default_config_def getitem2_def getitem_def)

text \<open>An instance: the file sets an unknown key \<open>theme\<close> and \<open>database_path\<close>.\<close>

theorem load_config_keeps_unknown_keys_witness:
  "distinct_keys extra_user_config
   \<and> dict_get extra_user_config (PStr ''theme'') = Some (PStr ''dark'')
   \<and> dict_get (config (load_config (Present (Inr (PDict extra_user_config)))))
         (PStr ''theme'') = Some (PStr ''dark'')
   \<and> dict_get default_config (PStr ''database_path'') \<noteq> None
   \<and> dict_get (config (load_config (Present (Inr (PDict extra_user_config)))))
         (PStr ''database_path'') = Some (PStr ''prod.db'')
   \<and> dict_get (config (load_config (Present (Inr (PDict extra_user_config)))))
         (PStr ''database_path'')
       = dict_get (config (load_config (Present (Inr (PDict (known_keys_only extra_user_config))))))
         (PStr ''database_path'')"
  using load_config_keeps_unknown_keys [of extra_user_config "PStr ''theme''" "PStr ''dark''"]
    load_config_keeps_unknown_keys [of extra_user_config "PStr ''database_path''" "PStr ''prod.db''"]
  by (simp add: extra_user_config_def distinct_keys_def default_config_def known_keys_only_def
      load_config_def dict_update_def)

text \<open>
  Claim C8 as stated fails: \<open>theme\<close> is not a documented option, and the returned
  configuration has an entry for it.
\<close>

theorem load_config_unknown_key_counterexample:
  "dict_get default_config (PStr ''theme'') = None
   \<and> dict_get (config (load_config (Present (Inr (PDict extra_user_config)))))
         (PStr ''theme'') = Some (PStr ''dark'')"
  by (simp add: load_config_def dict_update_def extra_user_config_def default_config_def)

section \<open>Properties of \<open>validate_data_quality\<close>\<close>

lemma dvd_pow2_odd:
  fixes m :: int
  assumes "2 ^ j dvd m * 3515625"
  shows "2 ^ j dvd m"
proof -
  have "coprime ((2::int) ^ j) 3515625" by (simp add: coprime_power_left_iff)
  then show ?thesis using assms by (simp add: coprime_dvd_mult_left_iff)
qed

lemma double_whole_micro:
  assumes "is_double t" and us: "t * 3600000000 = of_int us"
  shows "\<exists>n. t * 1024 = of_int n"
proof -
  from assms obtain m k where t: "t = of_int m * pow2 k"
    by (auto simp: is_double_def)
  show ?thesis
  proof (cases "- 10 \<le> k")
    case True
    then have "pow2 k * 1024 = of_int (2 ^ nat (k + 10))"
      using pow2_add [of k 10] by (simp add: pow2_nat)
    then have "t * 1024 = of_int (m * 2 ^ nat (k + 10))" by (simp add: t)
    then show ?thesis by blast
  next
    case False
    define j where "j = nat (- k - 10)"
    have k: "nat (- k) = j + 10" using False by (simp add: j_def)
    have p: "pow2 k = 1 / (2 ^ j * 1024)" using False by (simp add: pow2_def k power_add)
    have "of_int m * 3515625 = of_int us * (2 ^ j :: rat)"
      using us by (simp add: t p field_simps)
    then have "of_int (m * 3515625) = (of_int (us * 2 ^ j) :: rat)" by simp
    then have "m * 3515625 = us * 2 ^ j" by (simp only: of_int_eq_iff)
    then have "2 ^ j dvd m * 3515625" by simp
    then have "2 ^ j dvd m" by (rule dvd_pow2_odd)
    then obtain q where q: "m = 2 ^ j * q" by (auto simp: dvd_def)
    have "t * 1024 = of_int q" by (simp add: t p q)
    then show ?thesis by blast
  qed
qed

lemma whole_micro_bound:
  fixes t :: rat
  assumes "t * 1024 = of_int n" "\<bar>t\<bar> \<le> 2 ^ 35"
  shows "\<bar>n\<bar> \<le> 2 ^ 45"
proof -
  have "\<bar>of_int n :: rat\<bar> = \<bar>t\<bar> * 1024" by (simp add: abs_mult flip: assms(1))
  also have "\<dots> \<le> 2 ^ 35 * 1024" using assms(2) by simp
  finally have "(of_int \<bar>n\<bar> :: rat) \<le> of_int (2 ^ 45)" by simp
  then show ?thesis by (simp only: of_int_le_iff)
qed

lemma hours_of_exact:
  assumes d: "is_double t" and b: "\<bar>t\<bar> \<le> 2 ^ 35" and us: "of_int us = t * 3600000000"
  shows "hours_of us = t"
proof -
  from double_whole_micro [OF d us [symmetric]] obtain n where n: "t * 1024 = of_int n" by auto
  then have nb: "\<bar>n\<bar> \<le> 2 ^ 45" using b by (rule whole_micro_bound)
  have t: "t = of_int n / 1024" using n by simp
  have "of_int us / 1000000 = of_int (225 * n) * pow2 (- 6)"
    by (simp add: us t pow2_def)
  moreover have "is_double (of_int (225 * n) * pow2 (- 6))"
    unfolding is_double_def using nb by (intro exI [of _ "225 * n"] exI [of _ "- 6"]) simp
  ultimately have "is_double (of_int us / 1000000)" by (simp only:)
  then have "total_seconds us = of_int us / 1000000"
    unfolding total_seconds_def by (rule fl_exact)
  then have "hours_of us = fl t" by (simp add: hours_of_def us)
  then show ?thesis using d by (simp add: fl_exact)
qed

lemma hours_of_over:
  assumes d: "is_double t" and b: "\<bar>t\<bar> \<le> 2 ^ 35"
    and us: "of_int us = t * 3600000000 + 1000000"
  shows "t < hours_of us"
proof -
  have "t * 3600000000 = of_int (us - 1000000)" using us by simp
  from double_whole_micro [OF d this] obtain n where n: "t * 1024 = of_int n" by auto
  then have nb: "\<bar>n\<bar> \<le> 2 ^ 45" using b by (rule whole_micro_bound)
  have t: "t = of_int n / 1024" using n by simp
  have "of_int us / 1000000 = of_int (225 * n + 64) * pow2 (- 6)"
    by (simp add: us t pow2_def field_simps)
  moreover have "is_double (of_int (225 * n + 64) * pow2 (- 6))"
    unfolding is_double_def using nb by (intro exI [of _ "225 * n + 64"] exI [of _ "- 6"]) simp
  ultimately have "is_double (of_int us / 1000000)" by (simp only:)
  then have "total_seconds us = of_int us / 1000000"
    unfolding total_seconds_def by (rule fl_exact)
  moreover have "(t * 3600000000 + 1000000) / 1000000 / 3600 = t + 1 / 3600" by simp
  ultimately have h: "hours_of us = fl (t + 1 / 3600)" by (simp only: hours_of_def us)
  have "is_double (of_int (4 * n + 1) * pow2 (- 12))"
    unfolding is_double_def using nb by (intro exI [of _ "4 * n + 1"] exI [of _ "- 12"]) simp
  moreover have g: "of_int (4 * n + 1) * pow2 (- 12) = t + 1 / 4096"
    by (simp add: t pow2_def field_simps)
  ultimately have "is_double (t + 1 / 4096)" by (simp only:)
  then have "fl (t + 1 / 4096) = t + 1 / 4096" by (rule fl_exact)
  moreover have "fl (t + 1 / 4096) \<le> fl (t + 1 / 3600)" by (intro fl_mono) simp
  ultimately show ?thesis by (simp add: h)
qed


lemma py_lt_num: "py_num a = Some x \<Longrightarrow> py_num b = Some y \<Longrightarrow> py_lt a b = Inr (x < y)"
  by (simp add: py_lt_def)

lemma py_gt_num: "py_num a = Some x \<Longrightarrow> py_num b = Some y \<Longrightarrow> py_gt a b = Inr (y < x)"
  by (simp add: py_gt_def)

lemma to_double_exact:
  assumes "is_double (of_int i)" "\<bar>of_int i :: rat\<bar> < pow2 1024"
  shows "to_double i = Inr (of_int i)"
  using assms by (simp add: to_double_def fl_exact)

lemma cell_gt_num:
  assumes "py_num a = Some x" "py_num b = Some y" "is_double y" "\<bar>y\<bar> < pow2 1024"
    and "fl x = x"
  shows "cell_gt a b = Inr (y < x)"
proof (cases a)
  case (PFloat q)
  show ?thesis
  proof (cases b)
    case (PInt i)
    with assms have "to_double i = Inr y" by (simp add: to_double_exact)
    with PFloat PInt assms show ?thesis by (simp add: cell_gt_def)
  qed (use PFloat assms in \<open>simp_all add: cell_gt_def py_gt_def\<close>)
next
  case (PInt n)
  show ?thesis
  proof (cases b)
    case (PFloat q)
    with PInt assms show ?thesis by (simp add: cell_gt_def)
  qed (use PInt assms in \<open>simp_all add: cell_gt_def py_gt_def\<close>)
qed (use assms in \<open>simp_all add: cell_gt_def py_gt_def\<close>)

lemma check_failed_kind:
  "\<not> is_volume_issue (check_failed e)" "\<not> is_outlier_issue (check_failed e)"
  "\<not> is_freshness_issue (check_failed e)"
  by (simp_all add: check_failed_def is_volume_issue_def is_outlier_issue_def
      is_freshness_issue_def starts_with_def)

lemma volume_check_kind:
  assumes "volume_check cfg db today = Inr vs" "i \<in> set vs"
  shows "is_volume_issue i \<and> \<not> is_outlier_issue i \<and> \<not> is_freshness_issue i"
  using assms
  by (auto simp: volume_check_def is_volume_issue_def is_outlier_issue_def
      is_freshness_issue_def starts_with_def split: sum.splits bool.splits)

lemma outlier_check_kind:
  assumes "outlier_check cfg db today = Inr os" "i \<in> set os"
  shows "is_outlier_issue i \<and> \<not> is_volume_issue i \<and> \<not> is_freshness_issue i"
  using assms
  by (auto simp: outlier_check_def Let_def is_volume_issue_def is_outlier_issue_def
      is_freshness_issue_def starts_with_def split: sum.splits bool.splits)

lemma freshness_check_kind:
  assumes "freshness_check cfg db now = Inr fs" "i \<in> set fs"
  shows "is_freshness_issue i \<and> \<not> is_volume_issue i \<and> \<not> is_outlier_issue i"
  using assms
  by (auto simp: freshness_check_def Let_def is_volume_issue_def is_outlier_issue_def
      is_freshness_issue_def starts_with_def split: sum.splits bool.splits if_splits)

lemma validate_connected:
  assumes "db_connected cfg db"
  shows "validate_data_quality cfg db now1 now2 =
     (case run_checks cfg db now1 now2 of
        (issues, None) \<Rightarrow> (case commit db of None \<Rightarrow> issues
                                             | Some e \<Rightarrow> issues @ [check_failed e])
      | (issues, Some e) \<Rightarrow> issues @ [check_failed (propagated db e)])"
  using assms
  by (auto simp: db_connected_def validate_data_quality_def try_block_def propagated_def
      split: sum.splits option.splits prod.splits)

lemma validate_split:
  assumes "db_connected cfg db"
  shows "\<exists>xs. validate_data_quality cfg db now1 now2 =
           issues_of (volume_check cfg db (strftime_ymd now1))
           @ (if isl (volume_check cfg db (strftime_ymd now1)) then []
              else issues_of (outlier_check cfg db (strftime_ymd now1)))
           @ (if isl (volume_check cfg db (strftime_ymd now1))
                 \<or> isl (outlier_check cfg db (strftime_ymd now1)) then []
              else issues_of (freshness_check cfg db now2))
           @ xs
         \<and> (\<forall>i \<in> set xs. \<exists>e. i = check_failed e)"
  unfolding validate_connected [OF assms] run_checks_def Let_def issues_of_def
  by (auto split: sum.splits option.splits)


lemma filter_none: "(\<And>i. i \<in> set xs \<Longrightarrow> \<not> P i) \<Longrightarrow> filter P xs = []"
  by (simp add: filter_empty_conv)

lemma filter_all: "(\<And>i. i \<in> set xs \<Longrightarrow> P i) \<Longrightarrow> filter P xs = xs"
  by (simp add: filter_id_conv)

lemma volume_issues_kind:
  assumes "i \<in> set (issues_of (volume_check cfg db today))"
  shows "is_volume_issue i \<and> \<not> is_outlier_issue i \<and> \<not> is_freshness_issue i"
proof (cases "volume_check cfg db today")
  case (Inl e)
  with assms show ?thesis by (simp add: issues_of_def)
next
  case (Inr vs)
  with assms show ?thesis using volume_check_kind [OF Inr] by (simp add: issues_of_def)
qed

lemma outlier_issues_kind:
  assumes "i \<in> set (issues_of (outlier_check cfg db today))"
  shows "is_outlier_issue i \<and> \<not> is_volume_issue i \<and> \<not> is_freshness_issue i"
proof (cases "outlier_check cfg db today")
  case (Inl e)
  with assms show ?thesis by (simp add: issues_of_def)
next
  case (Inr os)
  with assms show ?thesis using outlier_check_kind [OF Inr] by (simp add: issues_of_def)
qed

lemma freshness_issues_kind:
  assumes "i \<in> set (issues_of (freshness_check cfg db now))"
  shows "is_freshness_issue i \<and> \<not> is_volume_issue i \<and> \<not> is_outlier_issue i"
proof (cases "freshness_check cfg db now")
  case (Inl e)
  with assms show ?thesis by (simp add: issues_of_def)
next
  case (Inr fs)
  with assms show ?thesis using freshness_check_kind [OF Inr] by (simp add: issues_of_def)
qed

lemma volume_issues_of_validate:
  assumes "db_connected cfg db"
  shows "filter is_volume_issue (validate_data_quality cfg db now1 now2)
           = issues_of (volume_check cfg db (strftime_ymd now1))"
proof -
  let ?V = "volume_check cfg db (strftime_ymd now1)"
  let ?O = "outlier_check cfg db (strftime_ymd now1)"
  let ?F = "freshness_check cfg db now2"
  from validate_split [OF assms, of now1 now2] obtain xs
    where v: "validate_data_quality cfg db now1 now2 =
           issues_of ?V @ (if isl ?V then [] else issues_of ?O)
           @ (if isl ?V \<or> isl ?O then [] else issues_of ?F) @ xs"
      and xs: "\<forall>i \<in> set xs. \<exists>e. i = check_failed e" by blast
  have 1: "filter is_volume_issue (issues_of ?V) = issues_of ?V"
    by (rule filter_all) (simp add: volume_issues_kind)
  have 2: "filter is_volume_issue (issues_of ?O) = []"
    by (rule filter_none) (simp add: outlier_issues_kind)
  have 3: "filter is_volume_issue (issues_of ?F) = []"
    by (rule filter_none) (simp add: freshness_issues_kind)
  have 4: "filter is_volume_issue xs = []"
    using xs by (intro filter_none) (auto simp: check_failed_kind)
  show ?thesis by (simp add: v 1 2 3 4)
qed

lemma outlier_issues_of_validate:
  assumes "db_connected cfg db"
  shows "filter is_outlier_issue (validate_data_quality cfg db now1 now2)
           = (if isl (volume_check cfg db (strftime_ymd now1)) then []
              else issues_of (outlier_check cfg db (strftime_ymd now1)))"
proof -
  let ?V = "volume_check cfg db (strftime_ymd now1)"
  let ?O = "outlier_check cfg db (strftime_ymd now1)"
  let ?F = "freshness_check cfg db now2"
  from validate_split [OF assms, of now1 now2] obtain xs
    where v: "validate_data_quality cfg db now1 now2 =
           issues_of ?V @ (if isl ?V then [] else issues_of ?O)
           @ (if isl ?V \<or> isl ?O then [] else issues_of ?F) @ xs"
      and xs: "\<forall>i \<in> set xs. \<exists>e. i = check_failed e" by blast
  have 1: "filter is_outlier_issue (issues_of ?V) = []"
    by (rule filter_none) (simp add: volume_issues_kind)
  have 2: "filter is_outlier_issue (issues_of ?O) = issues_of ?O"
    by (rule filter_all) (simp add: outlier_issues_kind)
  have 3: "filter is_outlier_issue (issues_of ?F) = []"
    by (rule filter_none) (simp add: freshness_issues_kind)
  have 4: "filter is_outlier_issue xs = []"
    using xs by (intro filter_none) (auto simp: check_failed_kind)
  show ?thesis by (simp add: v 1 2 3 4)
qed

lemma freshness_issues_of_validate:
  assumes "db_connected cfg db"
  shows "filter is_freshness_issue (validate_data_quality cfg db now1 now2)
           = (if isl (volume_check cfg db (strftime_ymd now1))
                 \<or> isl (outlier_check cfg db (strftime_ymd now1)) then []
              else issues_of (freshness_check cfg db now2))"
proof -
  let ?V = "volume_check cfg db (strftime_ymd now1)"
  let ?O = "outlier_check cfg db (strftime_ymd now1)"
  let ?F = "freshness_check cfg db now2"
  from validate_split [OF assms, of now1 now2] obtain xs
    where v: "validate_data_quality cfg db now1 now2 =
           issues_of ?V @ (if isl ?V then [] else issues_of ?O)
           @ (if isl ?V \<or> isl ?O then [] else issues_of ?F) @ xs"
      and xs: "\<forall>i \<in> set xs. \<exists>e. i = check_failed e" by blast
  have 1: "filter is_freshness_issue (issues_of ?V) = []"
    by (rule filter_none) (simp add: volume_issues_kind)
  have 2: "filter is_freshness_issue (issues_of ?O) = []"
    by (rule filter_none) (simp add: outlier_issues_kind)
  have 3: "filter is_freshness_issue (issues_of ?F) = issues_of ?F"
    by (rule filter_all) (simp add: freshness_issues_kind)
  have 4: "filter is_freshness_issue xs = []"
    using xs by (intro filter_none) (auto simp: check_failed_kind)
  show ?thesis by (simp add: v 1 2 3 4)
qed

text \<open>
  Claim C1. \<open>validate_data_quality\<close> returns the list of issues whatever the
  configuration and the database do: the result is the list as the \<open>try\<close> block left
  it, followed by one synthetic issue when the block raised. When the store is
  unreachable, either because connecting fails or because the very first query fails,
  the result is the one-element list holding the description of the failure.
\<close>

theorem validate_never_raises:
  "validate_data_quality cfg db now1 now2 =
      fst (try_block cfg db now1 now2)
      @ (case snd (try_block cfg db now1 now2) of None \<Rightarrow> [] | Some e \<Rightarrow> [check_failed e])
   \<and> (getitem (PDict cfg) ''database_path'' = Inr path \<and> connect db path = Some e \<longrightarrow>
        validate_data_quality cfg db now1 now2 = [check_failed e])
   \<and> (db_connected cfg db \<and> count_query db (strftime_ymd now1) = Inl e \<longrightarrow>
        validate_data_quality cfg db now1 now2 = [check_failed (propagated db e)])"
proof (intro conjI impI)
  show "validate_data_quality cfg db now1 now2 =
      fst (try_block cfg db now1 now2)
      @ (case snd (try_block cfg db now1 now2) of None \<Rightarrow> [] | Some e \<Rightarrow> [check_failed e])"
    by (simp add: validate_data_quality_def split: prod.splits option.splits)
next
  assume "getitem (PDict cfg) ''database_path'' = Inr path \<and> connect db path = Some e"
  then show "validate_data_quality cfg db now1 now2 = [check_failed e]"
    by (simp add: validate_data_quality_def try_block_def)
next
  assume a: "db_connected cfg db \<and> count_query db (strftime_ymd now1) = Inl e"
  then have "run_checks cfg db now1 now2 = ([], Some e)"
    by (simp add: run_checks_def volume_check_def)
  with a show "validate_data_quality cfg db now1 now2 = [check_failed (propagated db e)]"
    by (simp add: validate_connected)
qed

text \<open>
  Claim C9, on the queries themselves. For a reachable database whose first check has
  completed and appended the issues \<open>vs\<close>: when the second query fails, the result is
  \<open>vs\<close> followed by the single synthetic issue; when the second check has completed and
  appended \<open>os\<close> and the third query fails, the result is \<open>vs\<close>, then \<open>os\<close>, then the
  single synthetic issue. The synthetic issue describes the exception that left the \<open>with\<close>
  block.
\<close>

theorem validate_keeps_earlier_issues:
  assumes "db_connected cfg db"
    and "volume_check cfg db (strftime_ymd now1) = Inr vs"
  shows "(max_query db (strftime_ymd now1) = Inl e \<longrightarrow>
            validate_data_quality cfg db now1 now2 = vs @ [check_failed (propagated db e)])
       \<and> (outlier_check cfg db (strftime_ymd now1) = Inr os \<and> latest_query db = Inl e \<longrightarrow>
            validate_data_quality cfg db now1 now2
              = vs @ os @ [check_failed (propagated db e)])"
proof (intro conjI impI)
  assume "max_query db (strftime_ymd now1) = Inl e"
  then have "outlier_check cfg db (strftime_ymd now1) = Inl e"
    by (simp add: outlier_check_def)
  then show "validate_data_quality cfg db now1 now2 = vs @ [check_failed (propagated db e)]"
    using assms by (simp add: validate_connected run_checks_def)
next
  assume a: "outlier_check cfg db (strftime_ymd now1) = Inr os \<and> latest_query db = Inl e"
  then have "freshness_check cfg db now2 = Inl e"
    by (simp add: freshness_check_def)
  with a show "validate_data_quality cfg db now1 now2
      = vs @ os @ [check_failed (propagated db e)]"
    using assms by (simp add: validate_connected run_checks_def)
qed

text \<open>
  Claim C4. For a reachable database and a numeric threshold \<open>t\<close>: with exactly
  \<open>t - 1\<close> rows dated today the result holds exactly one volume issue, naming the count
  and the threshold; with exactly \<open>t\<close> rows it holds none.
\<close>

theorem volume_check_boundary:
  assumes "db_connected cfg db"
    and "count_query db (strftime_ymd now1) = Inr n"
    and "getitem2 (PDict cfg) ''quality_thresholds'' ''min_daily_transactions'' = Inr thr"
    and "py_num thr = Some t"
  shows "(of_int n = t - 1 \<longrightarrow>
            filter is_volume_issue (validate_data_quality cfg db now1 now2)
              = [''Low transaction count today: '' @ str_int n
                 @ '' (expected: >'' @ py_str thr @ '')''])
       \<and> (of_int n = t \<longrightarrow>
            filter is_volume_issue (validate_data_quality cfg db now1 now2) = [])"
proof -
  have lt: "py_lt (PInt n) thr = Inr (of_int n < t)"
    using assms(4) by (simp add: py_lt_num)
  show ?thesis
    using assms(2,3) lt
    by (simp add: volume_issues_of_validate [OF assms(1)] volume_check_def issues_of_def
        py_str_def)
qed


lemma py_num_or_zero:
  "py_num cell = Some x \<Longrightarrow> py_num (if py_bool cell then cell else PInt 0) = Some x"
  by (cases cell) (auto split: if_splits)

lemma strptime_truthy: "strptime_ymd cell = Inr d \<Longrightarrow> py_bool cell"
  by (cases cell) (auto simp: strptime_ymd_def match_ymd_def split: option.splits)

text \<open>
  Claim C5, as amended. The outlier check runs only when the volume check before it has
  completed without raising. Then, for a threshold that is a number \<open>t\<close> a double
  represents exactly (every float, every integer up to \<open>2 ^ 53\<close>): a \<open>NULL\<close> maximum (no
  rows today) is treated as the amount 0; a maximum equal to \<open>t\<close> gives no outlier issue;
  a maximum above \<open>t\<close> gives exactly one, naming the amount with a dollar sign, thousands
  separators and two decimals.
\<close>

theorem outlier_check_boundary:
  assumes "db_connected cfg db"
    and "volume_check cfg db (strftime_ymd now1) = Inr vs"
    and "getitem2 (PDict cfg) ''quality_thresholds'' ''max_transaction_amount'' = Inr thr"
    and "py_num thr = Some t" and "is_double t" and "\<bar>t\<bar> < pow2 1024"
  shows "(max_query db (strftime_ymd now1) = Inr PNone \<longrightarrow>
            outlier_check cfg db (strftime_ymd now1)
              = outlier_check cfg (db\<lparr>max_query := \<lambda>today. Inr (PInt 0)\<rparr>) (strftime_ymd now1))
       \<and> (max_query db (strftime_ymd now1) = Inr cell \<and> py_num cell = Some t \<longrightarrow>
            filter is_outlier_issue (validate_data_quality cfg db now1 now2) = [])
       \<and> (max_query db (strftime_ymd now1) = Inr (PFloat a) \<and> t < a \<longrightarrow>
            filter is_outlier_issue (validate_data_quality cfg db now1 now2)
              = [''Unusually high transaction detected: $'' @ format_fixed True 2 a])
       \<and> (max_query db (strftime_ymd now1) = Inr (PInt i) \<and> t < of_int i \<and> \<bar>i\<bar> < 2 ^ 53 \<longrightarrow>
            filter is_outlier_issue (validate_data_quality cfg db now1 now2)
              = [''Unusually high transaction detected: $'' @ format_fixed True 2 (of_int i)])"
proof (intro conjI impI)
  assume "max_query db (strftime_ymd now1) = Inr PNone"
  then show "outlier_check cfg db (strftime_ymd now1)
      = outlier_check cfg (db\<lparr>max_query := \<lambda>today. Inr (PInt 0)\<rparr>) (strftime_ymd now1)"
    by (simp add: outlier_check_def)
next
  assume a: "max_query db (strftime_ymd now1) = Inr cell \<and> py_num cell = Some t"
  have "fl t = t" using assms(5) by (rule fl_exact)
  then have "cell_gt (if py_bool cell then cell else PInt 0) thr = Inr (t < t)"
    using a assms(4,5,6) by (intro cell_gt_num py_num_or_zero) simp_all
  then have "outlier_check cfg db (strftime_ymd now1) = Inr []"
    using a assms(3) by (simp add: outlier_check_def)
  then show "filter is_outlier_issue (validate_data_quality cfg db now1 now2) = []"
    using assms(2) by (simp add: outlier_issues_of_validate [OF assms(1)] issues_of_def)
next
  assume a: "max_query db (strftime_ymd now1) = Inr (PFloat a) \<and> t < a"
  have "cell_gt (if py_bool (PFloat a) then PFloat a else PInt 0) thr = Inr True"
  proof (cases "a = 0")
    case True
    have "cell_gt (PInt 0) thr = Inr (t < of_int 0)"
      using assms(4,5,6) fl_int [of 0] by (intro cell_gt_num) simp_all
    with True a show ?thesis by simp
  next
    case False
    have "cell_gt (PFloat a) thr = Inr (t < a)"
    proof (cases thr)
      case (PInt j)
      with assms(4,5,6) have "to_double j = Inr t" by (simp add: to_double_exact)
      with PInt show ?thesis by (simp add: cell_gt_def)
    qed (use assms(4) in \<open>simp_all add: cell_gt_def py_gt_def\<close>)
    with False a show ?thesis by simp
  qed
  moreover have "py_format_f True 2 (if py_bool (PFloat a) then PFloat a else PInt 0)
      = Inr (format_fixed True 2 a)"
    using pow2_pos [of 1024] by (simp add: py_format_f_def fl_def)
  ultimately have "outlier_check cfg db (strftime_ymd now1)
      = Inr [''Unusually high transaction detected: $'' @ format_fixed True 2 a]"
    using a assms(3) by (simp add: outlier_check_def del: py_bool.simps)
  then show "filter is_outlier_issue (validate_data_quality cfg db now1 now2)
      = [''Unusually high transaction detected: $'' @ format_fixed True 2 a]"
    using assms(2) by (simp add: outlier_issues_of_validate [OF assms(1)] issues_of_def)
next
  assume a: "max_query db (strftime_ymd now1) = Inr (PInt i) \<and> t < of_int i \<and> \<bar>i\<bar> < 2 ^ 53"
  have ex: "fl (of_int i) = of_int i" using a by (simp add: fl_int)
  have "cell_gt (if py_bool (PInt i) then PInt i else PInt 0) thr = Inr (t < of_int i)"
    using assms(4,5,6) ex by (intro cell_gt_num py_num_or_zero) simp_all
  then have gt: "cell_gt (if py_bool (PInt i) then PInt i else PInt 0) thr = Inr True"
    using a by simp
  have "(of_int \<bar>i\<bar> :: rat) < of_int (2 ^ 53)" using a by (simp only: of_int_less_iff)
  then have small: "\<bar>of_int i :: rat\<bar> < pow2 1024" by (simp add: pow2_def)
  with ex have "py_format_f True 2 (PInt i) = Inr (format_fixed True 2 (of_int i))"
    by (simp add: py_format_f_def)
  then have "py_format_f True 2 (if py_bool (PInt i) then PInt i else PInt 0)
      = Inr (format_fixed True 2 (of_int i))"
    by (cases "i = 0") simp_all
  with gt have "outlier_check cfg db (strftime_ymd now1)
      = Inr [''Unusually high transaction detected: $'' @ format_fixed True 2 (of_int i)]"
    using a assms(3) by (simp add: outlier_check_def del: py_bool.simps)
  then show "filter is_outlier_issue (validate_data_quality cfg db now1 now2)
      = [''Unusually high transaction detected: $'' @ format_fixed True 2 (of_int i)]"
    using assms(2) by (simp add: outlier_issues_of_validate [OF assms(1)] issues_of_def)
qed

text \<open>
  Claim C6, as amended. The freshness check runs only when the volume check and the
  outlier check before it have completed without raising. Then: when the table has no
  rows the freshness check is skipped and adds nothing. Otherwise, when the latest
  \<open>transaction_date\<close> is a date-only string \<open>YYYY-MM-DD\<close>, its age is measured from the
  midnight that begins that date: for a numeric threshold of \<open>t\<close> hours, an age of exactly
  \<open>t\<close> hours gives no freshness issue, and an age one second greater gives exactly one,
  naming the elapsed hours with one decimal and the threshold.
\<close>

theorem freshness_check_boundary:
  assumes "db_connected cfg db"
    and "volume_check cfg db (strftime_ymd now1) = Inr vs"
    and "outlier_check cfg db (strftime_ymd now1) = Inr os"
  shows "(latest_query db = Inr PNone \<longrightarrow>
            freshness_check cfg db now2 = Inr []
            \<and> filter is_freshness_issue (validate_data_quality cfg db now1 now2) = [])
       \<and> (latest_query db = Inr cell \<and> strptime_ymd cell = Inr latest
          \<and> getitem2 (PDict cfg) ''quality_thresholds'' ''data_freshness_hours'' = Inr thr
          \<and> py_num thr = Some t \<and> is_double t \<and> \<bar>t\<bar> \<le> 2 ^ 35 \<longrightarrow>
            (of_int (to_micro now2 - to_micro latest) = t * 3600000000 \<longrightarrow>
               filter is_freshness_issue (validate_data_quality cfg db now1 now2) = [])
          \<and> (of_int (to_micro now2 - to_micro latest) = t * 3600000000 + 1000000 \<longrightarrow>
               filter is_freshness_issue (validate_data_quality cfg db now1 now2)
                 = [''Data is stale: ''
                    @ format_fixed False 1 (hours_of (to_micro now2 - to_micro latest))
                    @ '' hours old (threshold: '' @ py_str thr @ ''h)'']))"
proof -
  have f: "filter is_freshness_issue (validate_data_quality cfg db now1 now2)
      = issues_of (freshness_check cfg db now2)"
    using assms(2,3) by (simp add: freshness_issues_of_validate [OF assms(1)])
  have 1: "freshness_check cfg db now2 = Inr []" if "latest_query db = Inr PNone"
    using that by (simp add: freshness_check_def)
  have 2: "freshness_check cfg db now2 = Inr []"
    if "latest_query db = Inr cell" "strptime_ymd cell = Inr latest"
      "getitem2 (PDict cfg) ''quality_thresholds'' ''data_freshness_hours'' = Inr thr"
      "py_num thr = Some t" "is_double t" "\<bar>t\<bar> \<le> 2 ^ 35"
      "of_int (to_micro now2 - to_micro latest) = t * 3600000000"
  proof -
    have "hours_of (to_micro now2 - to_micro latest) = t"
      using that(5,6,7) by (rule hours_of_exact)
    then have "py_gt (PFloat (hours_of (to_micro now2 - to_micro latest))) thr = Inr False"
      using that(4) by (simp add: py_gt_num)
    then show ?thesis
      using that(1,2,3) strptime_truthy [OF that(2)]
      by (simp add: freshness_check_def Let_def)
  qed
  have 3: "freshness_check cfg db now2
      = Inr [''Data is stale: ''
             @ format_fixed False 1 (hours_of (to_micro now2 - to_micro latest))
             @ '' hours old (threshold: '' @ py_str thr @ ''h)'']"
    if "latest_query db = Inr cell" "strptime_ymd cell = Inr latest"
      "getitem2 (PDict cfg) ''quality_thresholds'' ''data_freshness_hours'' = Inr thr"
      "py_num thr = Some t" "is_double t" "\<bar>t\<bar> \<le> 2 ^ 35"
      "of_int (to_micro now2 - to_micro latest) = t * 3600000000 + 1000000"
  proof -
    have "t < hours_of (to_micro now2 - to_micro latest)"
      using that(5,6,7) by (rule hours_of_over)
    then have "py_gt (PFloat (hours_of (to_micro now2 - to_micro latest))) thr = Inr True"
      using that(4) by (simp add: py_gt_num)
    then show ?thesis
      using that(1,2,3) strptime_truthy [OF that(2)]
      by (simp add: freshness_check_def Let_def)
  qed
  show ?thesis
    using 1 2 3 by (simp add: f issues_of_def)
qed



text \<open>
  Instances: a database file that cannot be opened, and a database without the
  \<open>sales_transactions\<close> table.
\<close>

theorem validate_never_raises_witness:
  "getitem (PDict default_config) ''database_path'' = Inr (PStr ''sales_data.db'')
   \<and> connect unreachable_db (PStr ''sales_data.db'') = Some unable_to_open
   \<and> validate_data_quality default_config unreachable_db (midnight 2024 1 2) (midnight 2024 1 2)
       = [''Data quality check failed: unable to open database file'']
   \<and> db_connected default_config schemaless_db
   \<and> count_query schemaless_db (strftime_ymd (midnight 2024 1 2)) = Inl no_such_table
   \<and> validate_data_quality default_config schemaless_db (midnight 2024 1 2) (midnight 2024 1 2)
       = [''Data quality check failed: no such table: sales_transactions'']"
proof -
  have p: "getitem (PDict default_config) ''database_path'' = Inr (PStr ''sales_data.db'')"
    by code_simp
  have u: "connect unreachable_db (PStr ''sales_data.db'') = Some unable_to_open"
    by (simp add: unreachable_db_def healthy_db_def)
  have c: "db_connected default_config schemaless_db" by code_simp
  have q: "count_query schemaless_db (strftime_ymd (midnight 2024 1 2)) = Inl no_such_table"
    by (simp add: schemaless_db_def healthy_db_def)
  have m1: "check_failed unable_to_open
      = ''Data quality check failed: unable to open database file''"
    by code_simp
  have m2: "check_failed (propagated schemaless_db no_such_table)
      = ''Data quality check failed: no such table: sales_transactions''"
    by code_simp
  have r1: "validate_data_quality default_config unreachable_db (midnight 2024 1 2)
      (midnight 2024 1 2) = [check_failed unable_to_open]"
    using validate_never_raises [where cfg = default_config and db = unreachable_db
        and ?now1.0 = "midnight 2024 1 2" and ?now2.0 = "midnight 2024 1 2"
        and path = "PStr ''sales_data.db''" and e = unable_to_open] p u
    by blast
  have r2: "validate_data_quality default_config schemaless_db (midnight 2024 1 2)
      (midnight 2024 1 2) = [check_failed (propagated schemaless_db no_such_table)]"
    using validate_never_raises [where cfg = default_config and db = schemaless_db
        and ?now1.0 = "midnight 2024 1 2" and ?now2.0 = "midnight 2024 1 2"
        and e = no_such_table] c q
    by blast
  show ?thesis by (simp only: p u c q r1 r2 m1 m2 simp_thms)
qed

text \<open>
  Instances: 50 rows today and the second query fails because the database is locked;
  50 rows today, a maximum of 10000.01, and the third query fails.
\<close>

theorem validate_keeps_earlier_issues_witness:
  "db_connected default_config locked_db
   \<and> volume_check default_config locked_db (strftime_ymd (midnight 2024 1 2))
       = Inr [''Low transaction count today: 50 (expected: >100)'']
   \<and> max_query locked_db (strftime_ymd (midnight 2024 1 2))
       = Inl (External ''DatabaseError'' ''database is locked'')
   \<and> validate_data_quality default_config locked_db (midnight 2024 1 2) (midnight 2024 1 2)
       = [''Low transaction count today: 50 (expected: >100)'',
          ''Data quality check failed: database is locked'']
   \<and> db_connected default_config stale_locked_db
   \<and> volume_check default_config stale_locked_db (strftime_ymd (midnight 2024 1 2))
       = Inr [''Low transaction count today: 50 (expected: >100)'']
   \<and> outlier_check default_config stale_locked_db (strftime_ymd (midnight 2024 1 2))
       = Inr [''Unusually high transaction detected: $10,000.01'']
   \<and> latest_query stale_locked_db = Inl (External ''DatabaseError'' ''database is locked'')
   \<and> validate_data_quality default_config stale_locked_db (midnight 2024 1 2)
        (midnight 2024 1 2)
       = [''Low transaction count today: 50 (expected: >100)'',
          ''Unusually high transaction detected: $10,000.01'',
          ''Data quality check failed: database is locked'']"
proof -
  have c: "db_connected default_config locked_db" by code_simp
  have v: "volume_check default_config locked_db (strftime_ymd (midnight 2024 1 2))
      = Inr [''Low transaction count today: 50 (expected: >100)'']"
    by code_simp
  have q: "max_query locked_db (strftime_ymd (midnight 2024 1 2))
      = Inl (External ''DatabaseError'' ''database is locked'')"
    by (simp add: locked_db_def healthy_db_def)
  have m: "check_failed (propagated locked_db (External ''DatabaseError'' ''database is locked''))
      = ''Data quality check failed: database is locked''"
    by code_simp
  have c': "db_connected default_config stale_locked_db" by code_simp
  have v': "volume_check default_config stale_locked_db (strftime_ymd (midnight 2024 1 2))
      = Inr [''Low transaction count today: 50 (expected: >100)'']"
    by code_simp
  have o': "outlier_check default_config stale_locked_db (strftime_ymd (midnight 2024 1 2))
      = Inr [''Unusually high transaction detected: $10,000.01'']"
    by code_simp
  have q': "latest_query stale_locked_db
      = Inl (External ''DatabaseError'' ''database is locked'')"
    by (simp add: stale_locked_db_def outlier_db_def healthy_db_def)
  have m': "check_failed (propagated stale_locked_db
        (External ''DatabaseError'' ''database is locked''))
      = ''Data quality check failed: database is locked''"
    by code_simp
  have r: "validate_data_quality default_config locked_db (midnight 2024 1 2) (midnight 2024 1 2)
      = [''Low transaction count today: 50 (expected: >100)'']
        @ [check_failed (propagated locked_db (External ''DatabaseError'' ''database is locked''))]"
    using validate_keeps_earlier_issues [OF c v, where ?now2.0 = "midnight 2024 1 2"
        and e = "External ''DatabaseError'' ''database is locked''"
        and os = "[]"] q
    by blast
  have r': "validate_data_quality default_config stale_locked_db (midnight 2024 1 2)
        (midnight 2024 1 2)
      = [''Low transaction count today: 50 (expected: >100)'']
        @ [''Unusually high transaction detected: $10,000.01'']
        @ [check_failed (propagated stale_locked_db
             (External ''DatabaseError'' ''database is locked''))]"
    using validate_keeps_earlier_issues [OF c' v', where ?now2.0 = "midnight 2024 1 2"
        and e = "External ''DatabaseError'' ''database is locked''"
        and os = "[''Unusually high transaction detected: $10,000.01'']"] o' q'
    by blast
  show ?thesis by (simp only: c v q m r c' v' o' q' m' r' append.simps simp_thms)
qed

text \<open>
  Instances with the default threshold of 100: 99 rows and 100 rows.
\<close>

theorem volume_check_boundary_witness:
  "db_connected default_config low_volume_db
   \<and> count_query low_volume_db (strftime_ymd (midnight 2024 1 2)) = Inr 99
   \<and> count_query healthy_db (strftime_ymd (midnight 2024 1 2)) = Inr 100
   \<and> getitem2 (PDict default_config) ''quality_thresholds'' ''min_daily_transactions''
       = Inr (PInt 100)
   \<and> filter is_volume_issue
        (validate_data_quality default_config low_volume_db (midnight 2024 1 2) (midnight 2024 1 2))
       = [''Low transaction count today: 99 (expected: >100)'']
   \<and> filter is_volume_issue
        (validate_data_quality default_config healthy_db (midnight 2024 1 2) (midnight 2024 1 2))
       = []"
proof -
  have c1: "db_connected default_config low_volume_db" by code_simp
  have c2: "db_connected default_config healthy_db" by code_simp
  have q1: "count_query low_volume_db (strftime_ymd (midnight 2024 1 2)) = Inr 99"
    by (simp add: low_volume_db_def healthy_db_def)
  have q2: "count_query healthy_db (strftime_ymd (midnight 2024 1 2)) = Inr 100"
    by (simp add: healthy_db_def)
  have g: "getitem2 (PDict default_config) ''quality_thresholds'' ''min_daily_transactions''
      = Inr (PInt 100)"
    by code_simp
  have p: "py_num (PInt 100) = Some 100" by simp
  have m: "''Low transaction count today: '' @ str_int 99 @ '' (expected: >''
      @ py_str (PInt 100) @ '')'' = ''Low transaction count today: 99 (expected: >100)''"
    by code_simp
  have r1: "filter is_volume_issue
      (validate_data_quality default_config low_volume_db (midnight 2024 1 2) (midnight 2024 1 2))
      = [''Low transaction count today: '' @ str_int 99 @ '' (expected: >''
         @ py_str (PInt 100) @ '')'']"
    using volume_check_boundary [OF c1 q1 g p, where ?now2.0 = "midnight 2024 1 2"] by simp
  have r2: "filter is_volume_issue
      (validate_data_quality default_config healthy_db (midnight 2024 1 2) (midnight 2024 1 2))
      = []"
    using volume_check_boundary [OF c2 q2 g p, where ?now2.0 = "midnight 2024 1 2"] by simp
  show ?thesis by (simp only: c1 q1 q2 g r1 r2 m simp_thms)
qed

text \<open>
  Instances with the default threshold of 10000: a maximum of 10000.0, and one of
  10000.01.
\<close>

theorem outlier_check_boundary_witness:
  "db_connected default_config healthy_db
   \<and> getitem2 (PDict default_config) ''quality_thresholds'' ''max_transaction_amount''
       = Inr (PInt 10000)
   \<and> max_query healthy_db (strftime_ymd (midnight 2024 1 2)) = Inr (PFloat 10000)
   \<and> filter is_outlier_issue
        (validate_data_quality default_config healthy_db (midnight 2024 1 2) (midnight 2024 1 2))
       = []
   \<and> max_query outlier_db (strftime_ymd (midnight 2024 1 2)) = Inr (PFloat amount_10000_01)
   \<and> 10000 < amount_10000_01
   \<and> filter is_outlier_issue
        (validate_data_quality default_config outlier_db (midnight 2024 1 2) (midnight 2024 1 2))
       = [''Unusually high transaction detected: $10,000.01'']"
proof -
  have c1: "db_connected default_config healthy_db" by code_simp
  have c2: "db_connected default_config outlier_db" by code_simp
  have v1: "volume_check default_config healthy_db (strftime_ymd (midnight 2024 1 2)) = Inr []"
    by code_simp
  have v2: "volume_check default_config outlier_db (strftime_ymd (midnight 2024 1 2)) = Inr []"
    by code_simp
  have g: "getitem2 (PDict default_config) ''quality_thresholds'' ''max_transaction_amount''
      = Inr (PInt 10000)"
    by code_simp
  have p: "py_num (PInt 10000) = Some 10000" by simp
  have d: "is_double 10000" using is_double_int [of 10000] by simp
  have b: "\<bar>10000 :: rat\<bar> < pow2 1024" by (simp add: pow2_def)
  have q1: "max_query healthy_db (strftime_ymd (midnight 2024 1 2)) = Inr (PFloat 10000)"
    by (simp add: healthy_db_def)
  have q2: "max_query outlier_db (strftime_ymd (midnight 2024 1 2)) = Inr (PFloat amount_10000_01)"
    by (simp add: outlier_db_def healthy_db_def)
  have gt: "10000 < amount_10000_01" by (simp add: amount_10000_01_def)
  have m: "''Unusually high transaction detected: $'' @ format_fixed True 2 amount_10000_01
      = ''Unusually high transaction detected: $10,000.01''"
    by code_simp
  have r1: "filter is_outlier_issue
      (validate_data_quality default_config healthy_db (midnight 2024 1 2) (midnight 2024 1 2))
      = []"
    using outlier_check_boundary [OF c1 v1 g p d b, where ?now2.0 = "midnight 2024 1 2"
        and cell = "PFloat 10000"] q1
    by simp
  have r2: "filter is_outlier_issue
      (validate_data_quality default_config outlier_db (midnight 2024 1 2) (midnight 2024 1 2))
      = [''Unusually high transaction detected: $'' @ format_fixed True 2 amount_10000_01]"
    using outlier_check_boundary [OF c2 v2 g p d b, where ?now2.0 = "midnight 2024 1 2"
        and a = amount_10000_01] q2 gt
    by simp
  show ?thesis by (simp only: c1 g q1 q2 gt r1 r2 m simp_thms)
qed

text \<open>
  Instances with the default threshold of 24 hours and a latest date of 2024-01-01: the
  clock at 2024-01-02 00:00:00, and one second later.
\<close>

theorem freshness_check_boundary_witness:
  "db_connected default_config healthy_db
   \<and> latest_query healthy_db = Inr (PStr ''2024-01-01'')
   \<and> strptime_ymd (PStr ''2024-01-01'') = Inr (midnight 2024 1 1)
   \<and> getitem2 (PDict default_config) ''quality_thresholds'' ''data_freshness_hours''
       = Inr (PInt 24)
   \<and> to_micro (midnight 2024 1 2) - to_micro (midnight 2024 1 1) = 24 * 3600000000
   \<and> filter is_freshness_issue
        (validate_data_quality default_config healthy_db (midnight 2024 1 2) (midnight 2024 1 2))
       = []
   \<and> to_micro (at_time (midnight 2024 1 2) 0 0 1) - to_micro (midnight 2024 1 1)
       = 24 * 3600000000 + 1000000
   \<and> filter is_freshness_issue
        (validate_data_quality default_config healthy_db (midnight 2024 1 2)
           (at_time (midnight 2024 1 2) 0 0 1))
       = [''Data is stale: 24.0 hours old (threshold: 24h)'']"
proof -
  have c: "db_connected default_config healthy_db" by code_simp
  have v: "volume_check default_config healthy_db (strftime_ymd (midnight 2024 1 2)) = Inr []"
    by code_simp
  have o: "outlier_check default_config healthy_db (strftime_ymd (midnight 2024 1 2)) = Inr []"
    by code_simp
  have l: "latest_query healthy_db = Inr (PStr ''2024-01-01'')" by (simp add: healthy_db_def)
  have s: "strptime_ymd (PStr ''2024-01-01'') = Inr (midnight 2024 1 1)" by code_simp
  have g: "getitem2 (PDict default_config) ''quality_thresholds'' ''data_freshness_hours''
      = Inr (PInt 24)"
    by code_simp
  have p: "py_num (PInt 24) = Some 24" by simp
  have d: "is_double 24" using is_double_int [of 24] by simp
  have b: "\<bar>24 :: rat\<bar> \<le> 2 ^ 35" by simp
  have e1: "to_micro (midnight 2024 1 2) - to_micro (midnight 2024 1 1) = 24 * 3600000000"
    by code_simp
  have e2: "to_micro (at_time (midnight 2024 1 2) 0 0 1) - to_micro (midnight 2024 1 1)
      = 24 * 3600000000 + 1000000"
    by code_simp
  have m: "''Data is stale: '' @ format_fixed False 1 (hours_of (24 * 3600000000 + 1000000))
      @ '' hours old (threshold: '' @ py_str (PInt 24) @ ''h)''
      = ''Data is stale: 24.0 hours old (threshold: 24h)''"
    by code_simp
  have r1: "filter is_freshness_issue
      (validate_data_quality default_config healthy_db (midnight 2024 1 2) (midnight 2024 1 2))
      = []"
    using freshness_check_boundary [OF c v o, where cell = "PStr ''2024-01-01''"
        and latest = "midnight 2024 1 1" and thr = "PInt 24" and t = 24
        and ?now2.0 = "midnight 2024 1 2"] l s g p d b e1
    by simp
  have r2: "filter is_freshness_issue
      (validate_data_quality default_config healthy_db (midnight 2024 1 2)
         (at_time (midnight 2024 1 2) 0 0 1))
      = [''Data is stale: '' @ format_fixed False 1 (hours_of (24 * 3600000000 + 1000000))
         @ '' hours old (threshold: '' @ py_str (PInt 24) @ ''h)'']"
    using freshness_check_boundary [OF c v o, where cell = "PStr ''2024-01-01''"
        and latest = "midnight 2024 1 1" and thr = "PInt 24" and t = 24
        and ?now2.0 = "at_time (midnight 2024 1 2) 0 0 1"] l s g p d b e2
    by simp
  show ?thesis by (simp only: c l s g e1 e2 r1 r2 m simp_thms)
qed

text \<open>
  Claim C5 as stated fails when the volume check raises. The configuration file sets
  nothing but the outlier threshold, 5000; the section it supplies replaces the default
  one, so the volume threshold is missing and the volume check raises \<open>KeyError\<close>. The
  day's maximum, 10000.01, is above the threshold, and no outlier issue is emitted.
\<close>

theorem outlier_check_skipped_counterexample:
  "getitem2 (PDict outlier_only_config) ''quality_thresholds'' ''max_transaction_amount''
       = Inr (PInt 5000)
   \<and> db_connected outlier_only_config outlier_db
   \<and> max_query outlier_db (strftime_ymd (midnight 2024 1 2)) = Inr (PFloat amount_10000_01)
   \<and> 5000 < amount_10000_01
   \<and> validate_data_quality outlier_only_config outlier_db (midnight 2024 1 2)
        (midnight 2024 1 2)
       = [''Data quality check failed: '' @ [CHR 0x27] @ ''min_daily_transactions''
          @ [CHR 0x27]]
   \<and> filter is_outlier_issue
        (validate_data_quality outlier_only_config outlier_db (midnight 2024 1 2)
           (midnight 2024 1 2))
       = []"
  by code_simp

text \<open>
  Claim C6 as stated fails when an earlier check raises. The configuration file sets
  nothing but the freshness threshold, 24 hours, so the volume check raises \<open>KeyError\<close>.
  The latest transaction is dated 2024-01-01 and the clock reads 2024-01-02 00:00:01:
  the data is one second older than the threshold, and no freshness issue is emitted.
\<close>

theorem freshness_check_skipped_counterexample:
  "getitem2 (PDict freshness_only_config) ''quality_thresholds'' ''data_freshness_hours''
       = Inr (PInt 24)
   \<and> db_connected freshness_only_config healthy_db
   \<and> latest_query healthy_db = Inr (PStr ''2024-01-01'')
   \<and> strptime_ymd (PStr ''2024-01-01'') = Inr (midnight 2024 1 1)
   \<and> to_micro (at_time (midnight 2024 1 2) 0 0 1) - to_micro (midnight 2024 1 1)
       = 24 * 3600000000 + 1000000
   \<and> validate_data_quality freshness_only_config healthy_db (midnight 2024 1 2)
        (at_time (midnight 2024 1 2) 0 0 1)
       = [''Data quality check failed: '' @ [CHR 0x27] @ ''min_daily_transactions''
          @ [CHR 0x27]]
   \<and> filter is_freshness_issue
        (validate_data_quality freshness_only_config healthy_db (midnight 2024 1 2)
           (at_time (midnight 2024 1 2) 0 0 1))
       = []"
  by code_simp

section \<open>Properties of \<open>create_backup\<close>\<close>

lemma fst_prune_Cons:
  "fst (prune dm cutoff (p # ps) fs) =
     (case map_of fs p of
        None \<Rightarrow> fs
      | Some Dir \<Rightarrow> if dm p < cutoff then fs else fst (prune dm cutoff ps fs)
      | Some (File m c) \<Rightarrow>
          if m < cutoff then fst (prune dm cutoff ps (AList.delete p fs))
          else fst (prune dm cutoff ps fs))"
  by (simp split: option.splits node.splits prod.splits)

lemma map_of_prune_cases:
  "map_of (fst (prune dm cutoff ps fs)) q = map_of fs q
   \<or> (map_of (fst (prune dm cutoff ps fs)) q = None \<and> q \<in> set ps
      \<and> (\<exists>m c. map_of fs q = Some (File m c) \<and> m < cutoff))"
proof (induction ps arbitrary: fs)
  case Nil
  then show ?case by simp
next
  case (Cons p ps)
  show ?case
  proof (cases "map_of fs p")
    case None
    then show ?thesis by (simp add: fst_prune_Cons del: prune.simps)
  next
    case (Some n)
    show ?thesis
    proof (cases n)
      case Dir
      with Some Cons.IH [of fs] show ?thesis
        by (auto simp: fst_prune_Cons simp del: prune.simps)
    next
      case (File m c)
      show ?thesis
      proof (cases "m < cutoff")
        case False
        with Some File Cons.IH [of fs] show ?thesis
          by (auto simp: fst_prune_Cons simp del: prune.simps)
      next
        case True
        with Some File Cons.IH [of "AList.delete p fs"] show ?thesis
          by (cases "q = p") (auto simp: fst_prune_Cons delete_conv' simp del: prune.simps)
      qed
    qed
  qed
qed

lemma map_of_prune_frame:
  "q \<notin> set ps \<Longrightarrow> map_of (fst (prune dm cutoff ps fs)) q = map_of fs q"
  using map_of_prune_cases [of dm cutoff ps fs q] by auto

lemma prune_keeps_young:
  assumes "map_of fs q = Some (File m c)" "\<not> m < cutoff"
  shows "map_of (fst (prune dm cutoff ps fs)) q = Some (File m c)"
  using map_of_prune_cases [of dm cutoff ps fs q] assms by auto

lemma prune_deletes_old:
  assumes "distinct ps" "\<forall>p \<in> set ps. \<exists>n. map_of fs p = Some n \<and> is_file n"
    and "q \<in> set ps" "map_of fs q = Some (File m c)" "m < cutoff"
  shows "map_of (fst (prune dm cutoff ps fs)) q = None"
  using assms
proof (induction ps arbitrary: fs)
  case Nil
  then show ?case by simp
next
  case (Cons p ps)
  from Cons.prems(2) obtain n where "map_of fs p = Some n" "is_file n" by auto
  then obtain m' c' where p: "map_of fs p = Some (File m' c')"
    by (cases n) (auto simp: is_file_def)
  show ?case
  proof (cases "q = p")
    case True
    with Cons.prems p have "m' < cutoff" by simp
    moreover have "q \<notin> set ps" using True Cons.prems(1) by simp
    then have "map_of (fst (prune dm cutoff ps (AList.delete p fs))) q
        = map_of (AList.delete p fs) q"
      by (rule map_of_prune_frame)
    ultimately show ?thesis using True p
      by (simp add: fst_prune_Cons delete_conv' del: prune.simps)
  next
    case False
    with Cons.prems have q: "q \<in> set ps" by simp
    have d: "distinct ps" using Cons.prems(1) by simp
    show ?thesis
    proof (cases "m' < cutoff")
      case True
      have "\<forall>r \<in> set ps. \<exists>n. map_of (AList.delete p fs) r = Some n \<and> is_file n"
        using Cons.prems(1,2) by (auto simp: delete_conv')
      moreover have "map_of (AList.delete p fs) q = Some (File m c)"
        using False Cons.prems(4) by (simp add: delete_conv')
      ultimately have "map_of (fst (prune dm cutoff ps (AList.delete p fs))) q = None"
        using Cons.IH [OF d _ q _ Cons.prems(5)] by blast
      then show ?thesis using True p by (simp add: fst_prune_Cons del: prune.simps)
    next
      case False
      have "map_of (fst (prune dm cutoff ps fs)) q = None"
        using Cons.IH [OF d _ q Cons.prems(4,5)] Cons.prems(2) by simp
      then show ?thesis using False p by (simp add: fst_prune_Cons del: prune.simps)
    qed
  qed
qed


lemma is_file_simps [simp]: "is_file (File m c)" "\<not> is_file Dir"
  by (simp_all add: is_file_def)

lemma glob_match_backup_name: "glob_match (''sales_backup_'' @ stamp @ ''.db'')"
  by (simp add: glob_match_def)

lemma backup_file_entry:
  "entry_of d (backup_file d t) \<and> glob_match (last (backup_file d t))"
  using glob_match_backup_name by (simp add: entry_of_def backup_file_def)

lemma glob_backups_iff:
  "p \<in> set (glob_backups fs d)
     \<longleftrightarrow> map_of fs p \<noteq> None \<and> entry_of d p \<and> glob_match (last p)"
  by (force simp: glob_backups_def map_of_eq_None_iff image_iff)

lemma distinct_glob_backups: "distinct (map fst fs) \<Longrightarrow> distinct (glob_backups fs d)"
  unfolding glob_backups_def by (rule distinct_map_filter)

lemma mkdir_result:
  assumes "mkdir_exist_ok fs p = Inr fs1"
  shows "fs1 = fs \<or> (map_of fs p = None \<and> fs1 = AList.update p Dir fs)"
  using assms by (auto simp: mkdir_exist_ok_def split: if_splits option.splits)

lemma copy2_result:
  assumes "copy2 fs src dst = Inr fs2"
  shows "\<exists>s m c. src = PStr s \<and> map_of fs (parse_path s) = Some (File m c)
           \<and> \<not> is_dir fs (if is_dir fs dst then dst @ [basename s] else dst)
           \<and> fs2 = AList.update (if is_dir fs dst then dst @ [basename s] else dst)
                     (File m c) fs"
  using assms
  by (cases src) (auto simp: copy2_def Let_def split: if_splits option.splits node.splits)

















lemma make_copy_failure_state:
  assumes "make_copy cfg w = (fs1, Inl e)"
  shows "fs1 = files w
       \<or> (\<exists>d. backup_dir_of cfg = Inr d \<and> map_of (files w) d = None
              \<and> fs1 = AList.update d Dir (files w))"
proof (cases "backup_dir_of cfg")
  case (Inl e')
  with assms show ?thesis by (simp add: make_copy_def)
next
  case d: (Inr d)
  show ?thesis
  proof (cases "mkdir_exist_ok (files w) d")
    case (Inl e')
    with assms d show ?thesis by (simp add: make_copy_def)
  next
    case m: (Inr fs)
    from assms d m have "fs1 = fs"
      by (auto simp: make_copy_def split: sum.splits)
    with mkdir_result [OF m] d show ?thesis by auto
  qed
qed

lemma create_backup_on_failure:
  assumes "make_copy cfg w = (fs1, Inl e)"
  shows "create_backup cfg w =
     \<lparr>files_after = fs1,
      logged = [(ERROR, ''Backup failed: '' @ exn_str e)],
      alerts = [(''Backup Failed'', ''Database backup failed: '' @ exn_str e)]\<rparr>"
  using assms by (simp add: create_backup_def backup_try_def)

text \<open>
  Claim C3, as amended. Pruning depends on the success of the copy: the cleanup loop
  follows the copy inside the same \<open>try\<close> block. When the lines up to and including the
  copy raise, \<open>create_backup\<close> leaves the file system as these lines left it, deletes
  nothing, logs the failure and requests exactly one \<open>Backup Failed\<close> alert.
\<close>

theorem create_backup_copy_failure:
  assumes "make_copy cfg w = (fs1, Inl e)"
  shows "files_after (create_backup cfg w) = fs1
       \<and> logged (create_backup cfg w) = [(ERROR, ''Backup failed: '' @ exn_str e)]
       \<and> alerts (create_backup cfg w)
           = [(''Backup Failed'', ''Database backup failed: '' @ exn_str e)]
       \<and> (map_of (files w) p = Some n \<longrightarrow>
             map_of (files_after (create_backup cfg w)) p = Some n)"
proof -
  have "map_of fs1 p = Some n" if "map_of (files w) p = Some n"
    using make_copy_failure_state [OF assms] that by (auto simp: update_conv')
  then show ?thesis by (simp add: create_backup_on_failure [OF assms])
qed

lemma cutoff_bounds:
  assumes "clock_ok w"
  shows "\<exists>c. cutoff_timestamp w = Inr c
           \<and> posix_now w - 7 * 86400 - 1 \<le> c \<and> c \<le> posix_now w - 7 * 86400 + 1"
proof -
  define us where "us = to_micro (cutoff_now w) - 7 * 86400 * 1000000"
  define S where "S = us div 1000000 - epoch_seconds - utc_offset w"
  define u where "u = us mod 1000000"
  have us: "0 \<le> us" "us < 10 ^ 18" and off: "\<bar>utc_offset w\<bar> \<le> 86400"
    using assms by (simp_all add: clock_ok_def us_def)
  have u: "0 \<le> u" "u < 1000000" by (simp_all add: u_def)
  have q: "0 \<le> us div 1000000" "us div 1000000 < 10 ^ 12"
    using us by simp_all
  have Sb: "\<bar>S\<bar> < 2 ^ 53" "\<bar>S + 1\<bar> < 2 ^ 53"
    using q off by (simp_all add: S_def epoch_seconds_def)
  have split: "of_int us = (of_int (us div 1000000) * 1000000 + of_int u :: rat)"
  proof -
    have "us = us div 1000000 * 1000000 + u" by (simp add: u_def)
    then have "(of_int us :: rat) = of_int (us div 1000000 * 1000000 + u)" by simp
    then show ?thesis by simp
  qed
  have C: "posix_now w - 7 * 86400 = of_int S + of_int u / 1000000"
    using split by (simp add: posix_now_def S_def us_def field_simps)
  define c where "c = fl (of_int S + fl (of_int u / 1000000))"
  have cut: "cutoff_timestamp w = Inr c"
    using us by (simp add: cutoff_timestamp_def Let_def c_def S_def u_def us_def)
  have f0: "0 \<le> fl (of_int u / 1000000)" using u by (intro fl_nonneg) simp
  have "fl (of_int u / 1000000) \<le> fl 1" using u by (intro fl_mono) simp
  also have "fl 1 = 1" using fl_int [of 1] by simp
  finally have f1: "fl (of_int u / 1000000) \<le> 1" .
  have "fl (of_int S) \<le> c" unfolding c_def using f0 by (intro fl_mono) simp
  then have lo: "of_int S \<le> c" using Sb by (simp add: fl_int)
  have "c \<le> fl (of_int (S + 1))" unfolding c_def using f1 by (intro fl_mono) simp
  then have hi: "c \<le> of_int S + 1" using Sb fl_int [of "S + 1"] by simp
  have "of_int u / 1000000 < (1 :: rat)" "0 \<le> (of_int u / 1000000 :: rat)" using u by simp_all
  with lo hi C cut show ?thesis by (intro exI [of _ c]) simp
qed

lemma create_backup_config:
  assumes "getitem (PDict cfg') ''backup_path'' = getitem (PDict cfg) ''backup_path''"
    and "getitem (PDict cfg') ''database_path'' = getitem (PDict cfg) ''database_path''"
  shows "create_backup cfg' w = create_backup cfg w"
  by (simp only: create_backup_def backup_try_def make_copy_def backup_dir_of_def assms)

lemma make_copy_distinct:
  assumes "make_copy cfg w = (fs, r)" "distinct (map fst (files w))"
  shows "distinct (map fst fs)"
proof -
  have m: "distinct (map fst fs1)" if "mkdir_exist_ok (files w) d = Inr fs1" for d fs1
    using mkdir_result [OF that] assms(2) by (auto simp: distinct_update)
  have c: "distinct (map fst fs2)"
    if "mkdir_exist_ok (files w) d = Inr fs1" "copy2 fs1 src dst = Inr fs2" for d fs1 src dst fs2
    using copy2_result [OF that(2)] m [OF that(1)] by (auto simp: distinct_update)
  show ?thesis
    using assms m c by (auto simp: make_copy_def split: sum.splits)
qed

lemma files_after_success:
  assumes "make_copy cfg w = (fs2, Inr d)" "cutoff_timestamp w = Inr cutoff"
  shows "files_after (create_backup cfg w)
           = fst (prune (dir_mtime w) cutoff (glob_backups fs2 d) fs2)"
  using assms
  by (simp add: create_backup_def backup_try_def Let_def split: prod.splits option.splits)

text \<open>
  Claim C7, as amended. The retention window is the constant 7 days. After a successful
  copy, and when no matching entry of the backup directory is a directory, a matching
  backup file last modified 8 days ago or earlier is deleted; a file last modified 6 days
  ago or later is retained, whatever else is in the directory. No configuration value
  other than \<open>backup_path\<close> and \<open>database_path\<close> has any influence on \<open>create_backup\<close>.
\<close>

theorem prune_after_seven_days:
  assumes "make_copy cfg w = (fs2, Inr d)" and "clock_ok w"
  shows "(distinct (map fst (files w))
          \<and> (\<forall>q \<in> set (glob_backups fs2 d). map_of fs2 q \<noteq> Some Dir)
          \<and> entry_of d p \<and> glob_match (last p)
          \<and> map_of fs2 p = Some (File m c) \<and> m \<le> posix_now w - 8 * 86400 \<longrightarrow>
            map_of (files_after (create_backup cfg w)) p = None)
       \<and> (map_of fs2 p = Some (File m c) \<and> posix_now w - 6 * 86400 \<le> m \<longrightarrow>
            map_of (files_after (create_backup cfg w)) p = Some (File m c))
       \<and> (getitem (PDict cfg') ''backup_path'' = getitem (PDict cfg) ''backup_path''
          \<and> getitem (PDict cfg') ''database_path'' = getitem (PDict cfg) ''database_path'' \<longrightarrow>
            create_backup cfg' w = create_backup cfg w)"
proof -
  from cutoff_bounds [OF assms(2)] obtain cutoff
    where cut: "cutoff_timestamp w = Inr cutoff"
      and lo: "posix_now w - 7 * 86400 - 1 \<le> cutoff"
      and hi: "cutoff \<le> posix_now w - 7 * 86400 + 1"
    by blast
  note after = files_after_success [OF assms(1) cut]
  show ?thesis
  proof (intro conjI impI)
    assume a: "distinct (map fst (files w))
        \<and> (\<forall>q \<in> set (glob_backups fs2 d). map_of fs2 q \<noteq> Some Dir)
        \<and> entry_of d p \<and> glob_match (last p)
        \<and> map_of fs2 p = Some (File m c) \<and> m \<le> posix_now w - 8 * 86400"
    then have old: "m < cutoff" using lo by simp
    have dist: "distinct (glob_backups fs2 d)"
      using a make_copy_distinct [OF assms(1)] by (simp add: distinct_glob_backups)
    have mem: "p \<in> set (glob_backups fs2 d)" using a by (simp add: glob_backups_iff)
    have all: "\<forall>q \<in> set (glob_backups fs2 d). \<exists>n. map_of fs2 q = Some n \<and> is_file n"
    proof
      fix q assume q: "q \<in> set (glob_backups fs2 d)"
      then obtain n where n: "map_of fs2 q = Some n" by (auto simp: glob_backups_iff)
      with a q have "n \<noteq> Dir" by auto
      then have "is_file n" by (cases n) simp_all
      with n show "\<exists>n. map_of fs2 q = Some n \<and> is_file n" by blast
    qed
    from a have "map_of fs2 p = Some (File m c)" by simp
    with prune_deletes_old [OF dist all mem _ old]
    show "map_of (files_after (create_backup cfg w)) p = None" by (simp add: after)
  next
    assume a: "map_of fs2 p = Some (File m c) \<and> posix_now w - 6 * 86400 \<le> m"
    then have "\<not> m < cutoff" using hi by simp
    with a show "map_of (files_after (create_backup cfg w)) p = Some (File m c)"
      by (simp add: after prune_keeps_young)
  next
    assume "getitem (PDict cfg') ''backup_path'' = getitem (PDict cfg) ''backup_path''
        \<and> getitem (PDict cfg') ''database_path'' = getitem (PDict cfg) ''database_path''"
    then show "create_backup cfg' w = create_backup cfg w"
      using create_backup_config [of cfg' cfg w] by blast
  qed
qed


text \<open>
  An instance: the database file is missing.
\<close>

theorem create_backup_copy_failure_witness:
  "make_copy default_config no_database_world = (files no_database_world, Inl source_missing)
   \<and> map_of (files no_database_world) old_backup = Some (File 1704196800 ''old'')
   \<and> files_after (create_backup default_config no_database_world) = files no_database_world
   \<and> alerts (create_backup default_config no_database_world)
       = [(''Backup Failed'', ''Database backup failed: '' @ exn_str source_missing)]
   \<and> map_of (files_after (create_backup default_config no_database_world)) old_backup
       = Some (File 1704196800 ''old'')"
proof -
  have m: "make_copy default_config no_database_world
      = (files no_database_world, Inl source_missing)"
    by code_simp
  have o: "map_of (files no_database_world) old_backup = Some (File 1704196800 ''old'')"
    by code_simp
  show ?thesis
    using create_backup_copy_failure [OF m, where p = old_backup
        and n = "File 1704196800 ''old''"] o m
    by blast
qed

text \<open>
  Claim C3 as stated fails: the database file is missing, the cutoff is 1704283200, a
  backup last modified at 1704196800 is older than the retention window, and it is still
  there after \<open>create_backup\<close>.
\<close>

theorem create_backup_skips_pruning_counterexample:
  "cutoff_timestamp no_database_world = Inr 1704283200
   \<and> map_of (files no_database_world) old_backup = Some (File 1704196800 ''old'')
   \<and> (1704196800 :: rat) < 1704283200
   \<and> map_of (files no_database_world) [''sales_data.db''] = None
   \<and> map_of (files_after (create_backup default_config no_database_world)) old_backup
       = Some (File 1704196800 ''old'')"
  by code_simp

text \<open>
  An instance: the backups of 8 and 6 days ago, and the configuration that asks for 30
  days.
\<close>

theorem prune_after_seven_days_witness:
  "make_copy default_config sample_world
     = (fst (make_copy default_config sample_world), Inr [''backups''])
   \<and> clock_ok sample_world
   \<and> posix_now sample_world - 8 * 86400 = 1704196800
   \<and> map_of (fst (make_copy default_config sample_world)) old_backup
       = Some (File 1704196800 ''old'')
   \<and> map_of (files_after (create_backup default_config sample_world)) old_backup = None
   \<and> posix_now sample_world - 6 * 86400 = 1704369600
   \<and> map_of (fst (make_copy default_config sample_world)) young_backup
       = Some (File 1704369600 ''young'')
   \<and> map_of (files_after (create_backup default_config sample_world)) young_backup
       = Some (File 1704369600 ''young'')
   \<and> create_backup retention_config sample_world = create_backup default_config sample_world"
proof -
  have m: "make_copy default_config sample_world
      = (fst (make_copy default_config sample_world), Inr [''backups''])"
    by code_simp
  have k: "clock_ok sample_world" by code_simp
  have d: "distinct (map fst (files sample_world))" by code_simp
  have f: "\<forall>q \<in> set (glob_backups (fst (make_copy default_config sample_world)) [''backups'']).
      map_of (fst (make_copy default_config sample_world)) q \<noteq> Some Dir"
    by code_simp
  have e1: "entry_of [''backups''] old_backup \<and> glob_match (last old_backup)" by code_simp
  have o: "map_of (fst (make_copy default_config sample_world)) old_backup
      = Some (File 1704196800 ''old'')"
    by code_simp
  have y: "map_of (fst (make_copy default_config sample_world)) young_backup
      = Some (File 1704369600 ''young'')"
    by code_simp
  have p8: "posix_now sample_world - 8 * 86400 = 1704196800" by code_simp
  have p6: "posix_now sample_world - 6 * 86400 = 1704369600" by code_simp
  have g1: "getitem (PDict retention_config) ''backup_path''
      = getitem (PDict default_config) ''backup_path''"
    by code_simp
  have g2: "getitem (PDict retention_config) ''database_path''
      = getitem (PDict default_config) ''database_path''"
    by code_simp
  have l8: "(1704196800 :: rat) \<le> posix_now sample_world - 8 * 86400" using p8 by simp
  have l6: "posix_now sample_world - 6 * 86400 \<le> (1704369600 :: rat)" using p6 by simp
  have r1: "map_of (files_after (create_backup default_config sample_world)) old_backup = None"
    using prune_after_seven_days [OF m k, where p = old_backup and m = 1704196800
        and c = "''old''" and cfg' = retention_config] d f e1 o l8
    by blast
  have r2: "map_of (files_after (create_backup default_config sample_world)) young_backup
      = Some (File 1704369600 ''young'')"
    using prune_after_seven_days [OF m k, where p = young_backup and m = 1704369600
        and c = "''young''" and cfg' = retention_config] y l6
    by blast
  have r3: "create_backup retention_config sample_world
      = create_backup default_config sample_world"
    using prune_after_seven_days [OF m k, where p = young_backup and m = 1704369600
        and c = "''young''" and cfg' = retention_config] g1 g2
    by blast
  show ?thesis using m k p8 o r1 p6 y r2 r3 by blast
qed

text \<open>
  Claim C7 as stated fails for a configured window other than 7 days: with 30 days
  configured, a backup last modified 29 days ago is deleted.
\<close>

theorem retention_not_configurable_counterexample:
  "getitem (PDict retention_config) ''retention_days'' = Inr (PInt 30)
   \<and> map_of (files sample_world) month_old_backup = Some (File 1702382400 ''older'')
   \<and> posix_now sample_world - 29 * 86400 = 1702382400
   \<and> map_of (files_after (create_backup retention_config sample_world)) month_old_backup = None"
  by code_simp


end
